theory Spec2Isabelle
  imports Main "HOL-Library.Word"
begin

section \<open>efikeygen: data model\<close>

text \<open>
  The development follows \<^verbatim>\<open>src/efikeygen.c\<close>.  Byte buffers are lists of 8-bit
  words.  A \<^verbatim>\<open>SECItem\<close> is a type tag together with its bytes; its \<^verbatim>\<open>len\<close> field
  (an \<^verbatim>\<open>unsigned int\<close>) is the length of the byte list, and the places where the
  source does arithmetic on \<^verbatim>\<open>len\<close> have the 32-bit wrap-around written out.
\<close>

type_synonym byte = "8 word"
type_synonym bytes = "byte list"

datatype SECItemType = siBuffer | siOther nat

record SECItem =
  si_type :: SECItemType
  si_data :: bytes

definition si_len :: "SECItem \<Rightarrow> nat" where
  "si_len i = length (si_data i)"

record SECAlgorithmID =
  algorithm :: SECItem
  parameters :: SECItem

record SignedCert =
  cert_data :: SECItem
  cert_keytype :: SECAlgorithmID
  cert_sig :: SECItem

datatype SECOidTag =
    SEC_OID_X509_SUBJECT_KEY_ID
  | SEC_OID_X509_AUTH_KEY_ID
  | SEC_OID_X509_KEY_USAGE
  | SEC_OID_X509_BASIC_CONSTRAINTS
  | SEC_OID_X509_EXT_KEY_USAGE
  | SEC_OID_X509_AUTH_INFO_ACCESS
  | SEC_OID_PKCS1_SHA256_WITH_RSA_ENCRYPTION
  | SEC_OID_PKCS9_EXTENSION_REQUEST
  | SEC_OID_OTHER nat

definition uint_modulus :: nat where
  "uint_modulus = 2 ^ 32"

section \<open>DER primitives of the encoder\<close>

text \<open>
  \<^verbatim>\<open>SEC_ASN1EncodeItem\<close> belongs to the cryptographic provider.  For the template
  \<^verbatim>\<open>SignedCertTemplate\<close> it emits definite-length DER: an identifier octet, the
  length (short form below 128, otherwise \<^verbatim>\<open>0x80 + k\<close> followed by \<open>k\<close> big-endian
  octets), then the contents.
\<close>

definition DER_BIT_STRING :: byte where "DER_BIT_STRING = 0x03"
definition DER_OCTET_STRING :: byte where "DER_OCTET_STRING = 0x04"
definition DER_OBJECT_ID :: byte where "DER_OBJECT_ID = 0x06"
definition DER_SEQUENCE :: byte where "DER_SEQUENCE = 0x30"

fun be_digits :: "nat \<Rightarrow> bytes" where
  "be_digits n =
     (if n < 256 then [of_nat n] else be_digits (n div 256) @ [of_nat (n mod 256)])"

declare be_digits.simps [simp del]

definition der_length :: "nat \<Rightarrow> bytes" where
  "der_length n =
     (if n < 128 then [of_nat n]
      else of_nat (128 + length (be_digits n)) # be_digits n)"

definition der_tlv :: "byte \<Rightarrow> bytes \<Rightarrow> bytes" where
  "der_tlv tag contents = tag # der_length (length contents) @ contents"

text \<open>
  \<^verbatim>\<open>SECOID_AlgorithmIDTemplate\<close>: a SEQUENCE of the OBJECT IDENTIFIER and the
  optional, already encoded parameters.  \<^verbatim>\<open>SEC_ASN1_ANY\<close> copies the item's bytes as
  they are.
\<close>

definition encode_AlgorithmID :: "SECAlgorithmID \<Rightarrow> bytes" where
  "encode_AlgorithmID a =
     der_tlv DER_SEQUENCE
       (der_tlv DER_OBJECT_ID (si_data (algorithm a)) @ si_data (parameters a))"

text \<open>
  \<^verbatim>\<open>SignedCertTemplate\<close>: SEQUENCE \<open>{\<close> ANY data, INLINE AlgorithmID keytype,
  OCTET STRING sig \<open>}\<close>.
\<close>

definition encode_SignedCert :: "SignedCert \<Rightarrow> bytes" where
  "encode_SignedCert c =
     der_tlv DER_SEQUENCE
       (si_data (cert_data c) @ encode_AlgorithmID (cert_keytype c)
          @ der_tlv DER_OCTET_STRING (si_data (cert_sig c)))"

section \<open>The provider\<close>

text \<open>
  What the code calls but does not define is gathered in one record: the functions of
  the cryptographic provider (NSS) and the helpers of \<^verbatim>\<open>cms_common.c\<close>, which is not
  among the sources.  A pointer result that may be \<^verbatim>\<open>NULL\<close> is an option, a
  \<^verbatim>\<open>SECStatus\<close> is a boolean (\<open>True\<close> for \<^verbatim>\<open>SECSuccess\<close>).  A helper that returns an
  \<^verbatim>\<open>int\<close> and fills an output item is an option: \<open>None\<close> stands for a negative
  return code, the only thing the callers test.  \<^verbatim>\<open>generate_algorithm_id\<close> is taken as
  the provider gives it; \<^verbatim>\<open>generate_auth_info\<close>, whose return code \<^verbatim>\<open>add_auth_info\<close>
  passes on, is the code it returns and the bytes of the item it fills in.  For the
  three wrapping helpers, defined further down, \<open>helper_fails\<close> says whether a call of
  the helper of that name fails.
\<close>

type_synonym SECKEYPublicKey = bytes

record CERTBasicConstraints =
  isCA :: bool
  pathLenConstraint :: int

definition CERT_UNLIMITED_PATH_CONSTRAINT :: int where
  "CERT_UNLIMITED_PATH_CONSTRAINT = -2"

record extension =
  ext_oid :: SECOidTag
  ext_critical :: bool
  ext_value :: bytes

record provider =
  PK11_DEREncodePublicKey :: "SECKEYPublicKey \<Rightarrow> bytes option"
  PK11_MakeIDFromPubKey :: "bytes \<Rightarrow> bytes option"
  CERT_EncodeBasicConstraintValue :: "CERTBasicConstraints \<Rightarrow> bytes option"
  CERT_StartCertificateRequestAttributes :: "bool"
  CERT_AddExtension :: "extension list \<Rightarrow> extension \<Rightarrow> bool"
  SECOID_FindOIDByTag :: "SECOidTag \<Rightarrow> bytes option"
  generate_algorithm_id :: "SECOidTag \<Rightarrow> SECAlgorithmID option"
  SEC_ASN1EncodeItem_ok :: "bool"
  helper_fails :: "string \<Rightarrow> bool"
  generate_auth_info :: "string option \<Rightarrow> int \<times> bytes"

section \<open>The Signature Bundler\<close>

text \<open>
  \<^verbatim>\<open>calloc\<close> gives zeroed bytes; \<^verbatim>\<open>memcpy\<close> into a buffer is defined only inside
  the buffer.
\<close>

definition calloc :: "nat \<Rightarrow> nat \<Rightarrow> bytes" where
  "calloc nmemb sz = replicate (nmemb * sz) 0"

definition memcpy :: "bytes \<Rightarrow> nat \<Rightarrow> bytes \<Rightarrow> nat \<Rightarrow> bytes option" where
  "memcpy dest off src n =
     (if off + n \<le> length dest \<and> n \<le> length src
      then Some (take off dest @ take n src @ drop (off + n) dest)
      else None)"

datatype bundle_error =
    Returned_minus_1
  | Errx string
  | Undefined_behaviour string

text \<open>
  Lines 84--95: the initialiser of \<^verbatim>\<open>cert.sig\<close> and the \<^verbatim>\<open>memcpy\<close>.  The size
  \<^verbatim>\<open>signature->len + 1\<close> is computed in \<^verbatim>\<open>unsigned int\<close>.
\<close>

definition signature_buffer :: "SECItem \<Rightarrow> bytes option" where
  "signature_buffer signature =
     memcpy (calloc 1 ((si_len signature + 1) mod uint_modulus)) 1
            (si_data signature) (si_len signature)"

text \<open>
  Lines 84--105: the certificate structure is filled in and handed to the encoder;
  the result is \<^verbatim>\<open>sigder\<close> before the patch.  An encoding that does not fit the
  \<^verbatim>\<open>unsigned int\<close> length of a \<^verbatim>\<open>SECItem\<close> has no defined result.
\<close>

definition bundle_encode ::
    "provider \<Rightarrow> SECItem \<Rightarrow> SECOidTag \<Rightarrow> SECItem \<Rightarrow> bundle_error + bytes" where
  "bundle_encode P data oid signature =
     (case signature_buffer signature of
        None \<Rightarrow> Inl (Undefined_behaviour ''memcpy past the end of cert.sig.data'')
      | Some sigbuf \<Rightarrow>
         (case generate_algorithm_id P oid of
            None \<Rightarrow> Inl Returned_minus_1
          | Some keytype \<Rightarrow>
              if \<not> SEC_ASN1EncodeItem_ok P
              then Inl (Errx ''could not encode certificate'')
              else
                let sigder = encode_SignedCert
                      \<lparr>cert_data = \<lparr>si_type = si_type data, si_data = si_data data\<rparr>,
                       cert_keytype = keytype,
                       cert_sig = \<lparr>si_type = si_type signature, si_data = sigbuf\<rparr>\<rparr>
                in if uint_modulus \<le> length sigder
                   then Inl (Undefined_behaviour ''encoding longer than SECItem.len'')
                   else Inr sigder))"

text \<open>
  Line 107: \<^verbatim>\<open>sigder->data[sigder->len - 261] = DER_BIT_STRING\<close>.  The index is
  computed in \<^verbatim>\<open>unsigned int\<close>; a store outside the buffer is undefined behaviour.
\<close>

definition patch_index :: "nat \<Rightarrow> nat" where
  "patch_index n = nat ((int n - 261) mod int uint_modulus)"

definition bundle_signature ::
    "provider \<Rightarrow> SECItem \<Rightarrow> SECOidTag \<Rightarrow> SECItem \<Rightarrow> bundle_error + bytes" where
  "bundle_signature P data oid signature =
     (case bundle_encode P data oid signature of
        Inl e \<Rightarrow> Inl e
      | Inr sigder \<Rightarrow>
          if patch_index (length sigder) < length sigder
          then Inr (sigder[patch_index (length sigder) := DER_BIT_STRING])
          else Inl (Undefined_behaviour ''store outside sigder->data''))"

section \<open>Reading DER\<close>

text \<open>
  A reader for the envelope, used to state what decoding the Bundler's output yields:
  the outer SEQUENCE holds one element taken as it is (ANY), the algorithm identifier
  SEQUENCE beginning with an OBJECT IDENTIFIER, and a BIT STRING, with nothing left
  over.
\<close>

definition be_value :: "bytes \<Rightarrow> nat" where
  "be_value bs = foldl (\<lambda>a b. 256 * a + unat b) 0 bs"

definition der_read_length :: "bytes \<Rightarrow> (nat \<times> bytes) option" where
  "der_read_length bs =
     (case bs of
        [] \<Rightarrow> None
      | b # rest \<Rightarrow>
          if unat b < 128 then Some (unat b, rest)
          else if unat b = 128 \<or> length rest < unat b - 128 then None
          else Some (be_value (take (unat b - 128) rest), drop (unat b - 128) rest))"

definition der_read_tlv :: "bytes \<Rightarrow> (byte \<times> bytes \<times> bytes) option" where
  "der_read_tlv bs =
     (case bs of
        [] \<Rightarrow> None
      | t # r \<Rightarrow>
         (case der_read_length r of
            None \<Rightarrow> None
          | Some (n, r') \<Rightarrow>
              if length r' < n then None else Some (t, take n r', drop n r')))"

definition der_read_any :: "bytes \<Rightarrow> (bytes \<times> bytes) option" where
  "der_read_any bs =
     (case der_read_tlv bs of
        None \<Rightarrow> None
      | Some (t, c, rest) \<Rightarrow> Some (take (length bs - length rest) bs, rest))"

record decoded_cert =
  dec_tbs :: bytes
  dec_oid :: bytes
  dec_parameters :: bytes
  dec_bit_string :: bytes

definition decode_SignedCert :: "bytes \<Rightarrow> decoded_cert option" where
  "decode_SignedCert bs =
     (case der_read_tlv bs of
        None \<Rightarrow> None
      | Some (t, body, rest) \<Rightarrow>
          if t \<noteq> DER_SEQUENCE \<or> rest \<noteq> [] then None
          else (case der_read_any body of
             None \<Rightarrow> None
           | Some (tbs, r1) \<Rightarrow>
              (case der_read_tlv r1 of
                 None \<Rightarrow> None
               | Some (t2, alg, r2) \<Rightarrow>
                  if t2 \<noteq> DER_SEQUENCE then None
                  else (case der_read_tlv alg of
                     None \<Rightarrow> None
                   | Some (t3, oid, params) \<Rightarrow>
                      if t3 \<noteq> DER_OBJECT_ID then None
                      else (case der_read_tlv r2 of
                         None \<Rightarrow> None
                       | Some (t4, bits, r4) \<Rightarrow>
                          if t4 \<noteq> DER_BIT_STRING \<or> r4 \<noteq> [] then None
                          else Some \<lparr>dec_tbs = tbs, dec_oid = oid,
                                      dec_parameters = params,
                                      dec_bit_string = bits\<rparr>)))))"

section \<open>The Extension Builder\<close>

text \<open>
  The extensions handle is the sequence of extensions appended so far, in the order of
  the calls of \<^verbatim>\<open>CERT_AddExtension\<close>; the messages are what was handed to
  \<^verbatim>\<open>cms->log\<close>, oldest first.  A function of the source that returns an \<^verbatim>\<open>int\<close>
  yields \<open>Returned\<close> with that value, or \<open>Exited\<close> when it ends the process.
\<close>

record ext_state =
  handle :: "extension list"
  messages :: "string list"

datatype control = Returned int | Exited int

text \<open>
  Modelled from the spec: the macros \<^verbatim>\<open>cmsreterr\<close> and \<^verbatim>\<open>cmserr\<close>
  (\<^verbatim>\<open>cms_common.h\<close>, absent).  An error surfaces a human-readable message naming the
  failing stage; \<^verbatim>\<open>cmsreterr\<close> then returns the given value from the enclosing
  function, \<^verbatim>\<open>cmserr\<close> ends the run with it.
\<close>

definition cmsreterr :: "int \<Rightarrow> ext_state \<Rightarrow> string \<Rightarrow> control \<times> ext_state" where
  "cmsreterr rv st msg = (Returned rv, st\<lparr>messages := messages st @ [msg]\<rparr>)"

definition cmserr :: "int \<Rightarrow> ext_state \<Rightarrow> string \<Rightarrow> control \<times> ext_state" where
  "cmserr rv st msg = (Exited rv, st\<lparr>messages := messages st @ [msg]\<rparr>)"

text \<open>
  Modelled from the spec: \<^verbatim>\<open>generate_octet_string\<close>, \<^verbatim>\<open>make_context_specific\<close> and
  \<^verbatim>\<open>wrap_in_seq\<close> (\<^verbatim>\<open>cms_common.c\<close>, absent).  They wrap their argument as an OCTET
  STRING, in a context-specific explicit tag of the given number, and in a SEQUENCE.
\<close>

definition generate_octet_string :: "provider \<Rightarrow> bytes \<Rightarrow> bytes option" where
  "generate_octet_string P original =
     (if helper_fails P ''generate_octet_string'' then None
      else Some (der_tlv DER_OCTET_STRING original))"

definition context_specific_tag :: "nat \<Rightarrow> byte" where
  "context_specific_tag ctxt = 0xA0 + of_nat ctxt"

definition make_context_specific :: "provider \<Rightarrow> nat \<Rightarrow> bytes \<Rightarrow> bytes option" where
  "make_context_specific P ctxt original =
     (if helper_fails P ''make_context_specific'' then None
      else Some (der_tlv (context_specific_tag ctxt) original))"

definition wrap_in_seq :: "provider \<Rightarrow> bytes list \<Rightarrow> nat \<Rightarrow> bytes option" where
  "wrap_in_seq P items num_items =
     (if helper_fails P ''wrap_in_seq'' then None
      else Some (der_tlv DER_SEQUENCE (concat (take num_items items))))"

text \<open>A call of \<^verbatim>\<open>CERT_AddExtension\<close> followed by the test of its status.\<close>

definition append_extension ::
    "provider \<Rightarrow> ext_state \<Rightarrow> SECOidTag \<Rightarrow> bytes \<Rightarrow> bool \<Rightarrow> ext_state option" where
  "append_extension P st oid val critical =
     (let ext = \<lparr>ext_oid = oid, ext_critical = critical, ext_value = val\<rparr>
      in if CERT_AddExtension P (handle st) ext
         then Some (st\<lparr>handle := handle st @ [ext]\<rparr>)
         else None)"

definition add_subject_key_id ::
    "provider \<Rightarrow> ext_state \<Rightarrow> SECKEYPublicKey \<Rightarrow> control \<times> ext_state" where
  "add_subject_key_id P st pubkey =
     (case PK11_DEREncodePublicKey P pubkey of
        None \<Rightarrow> cmsreterr (-1) st ''could not encode subject key id extension''
      | Some pubkey_der \<Rightarrow>
         (case PK11_MakeIDFromPubKey P pubkey_der of
            None \<Rightarrow> cmsreterr (-1) st ''could not encode subject key id extension''
          | Some encoded \<Rightarrow>
             (case generate_octet_string P encoded of
                None \<Rightarrow> cmsreterr (-1) st ''could not encode subject key id extension''
              | Some wrapped \<Rightarrow>
                 (case append_extension P st SEC_OID_X509_SUBJECT_KEY_ID wrapped False of
                    None \<Rightarrow>
                      cmsreterr (-1) st ''could not encode subject key id extension''
                  | Some st' \<Rightarrow> (Returned 0, st')))))"

definition add_auth_key_id ::
    "provider \<Rightarrow> ext_state \<Rightarrow> SECKEYPublicKey \<Rightarrow> control \<times> ext_state" where
  "add_auth_key_id P st pubkey =
     (case PK11_DEREncodePublicKey P pubkey of
        None \<Rightarrow> cmserr (-1) st ''could not encode CA Key ID extension''
      | Some pubkey_der \<Rightarrow>
         (case PK11_MakeIDFromPubKey P pubkey_der of
            None \<Rightarrow> cmserr (-1) st ''could not encode CA Key ID extension''
          | Some encoded \<Rightarrow>
             (case make_context_specific P 0 encoded of
                None \<Rightarrow> cmsreterr (-1) st ''could not encode subject key id extension''
              | Some cspecific \<Rightarrow>
                 (case wrap_in_seq P [cspecific] 1 of
                    None \<Rightarrow>
                      cmsreterr (-1) st ''could not encode subject key id extension''
                  | Some wrapped \<Rightarrow>
                     (case append_extension P st SEC_OID_X509_AUTH_KEY_ID wrapped False of
                        None \<Rightarrow> cmserr (-1) st ''could not encode CA Key ID extension''
                      | Some st' \<Rightarrow> (Returned 0, st'))))))"

text \<open>
  Lines 174--191: the array starts as zeros and is assigned element by element; the
  branch under \<^verbatim>\<open>#if 0\<close> is not compiled.
\<close>

definition key_usage_value :: bytes where
  "key_usage_value = [0, 0, 0, 0][3 := 0x86, 2 := 0x01, 1 := 0x02, 0 := 0x03]"

definition add_key_usage :: "provider \<Rightarrow> ext_state \<Rightarrow> control \<times> ext_state" where
  "add_key_usage P st =
     (case append_extension P st SEC_OID_X509_KEY_USAGE key_usage_value True of
        None \<Rightarrow> cmsreterr (-1) st ''could not encode key usage extension''
      | Some st' \<Rightarrow> (Returned 0, st'))"

definition add_basic_constraints :: "provider \<Rightarrow> ext_state \<Rightarrow> control \<times> ext_state" where
  "add_basic_constraints P st =
     (case CERT_EncodeBasicConstraintValue P
             \<lparr>isCA = True, pathLenConstraint = CERT_UNLIMITED_PATH_CONSTRAINT\<rparr> of
        None \<Rightarrow> cmsreterr (-1) st ''could not encode basic constraints''
      | Some encoded \<Rightarrow>
         (case append_extension P st SEC_OID_X509_BASIC_CONSTRAINTS encoded True of
            None \<Rightarrow> cmsreterr (-1) st ''could not encode basic constraints''
          | Some st' \<Rightarrow> (Returned 0, st')))"

definition extended_key_usage_value :: bytes where
  "extended_key_usage_value =
     [0x30, 0x0a, 0x06, 0x08, 0x2b, 0x06, 0x01, 0x05, 0x05, 0x07, 0x03, 0x03]"

definition add_extended_key_usage :: "provider \<Rightarrow> ext_state \<Rightarrow> control \<times> ext_state" where
  "add_extended_key_usage P st =
     (case append_extension P st SEC_OID_X509_EXT_KEY_USAGE extended_key_usage_value False of
        None \<Rightarrow> cmsreterr (-1) st ''could not encode extended key usage''
      | Some st' \<Rightarrow> (Returned 0, st'))"

definition add_auth_info ::
    "provider \<Rightarrow> ext_state \<Rightarrow> string option \<Rightarrow> control \<times> ext_state" where
  "add_auth_info P st url =
     (case generate_auth_info P url of
        (rc, val) \<Rightarrow>
          if rc < 0 then (Returned rc, st)
          else (case append_extension P st SEC_OID_X509_AUTH_INFO_ACCESS val False of
             None \<Rightarrow>
               cmsreterr (-1) st
                 ''could not encode key authority information access extension''
           | Some st' \<Rightarrow> (Returned 0, st')))"

section \<open>The Certificate Request Assembler\<close>

text \<open>
  In \<^verbatim>\<open>add_extensions_to_crq\<close> every step has the shape
  \<^verbatim>\<open>rc = step(...); if (rc < 0) cmsreterr(-1, cms, "could not generate certificate
  extensions");\<close>.
\<close>

definition check_rc ::
    "control \<times> ext_state \<Rightarrow> (ext_state \<Rightarrow> control \<times> ext_state) \<Rightarrow> control \<times> ext_state" where
  "check_rc r continue =
     (case r of
        (Exited n, st) \<Rightarrow> (Exited n, st)
      | (Returned rc, st) \<Rightarrow>
          if rc < 0 then cmsreterr (-1) st ''could not generate certificate extensions''
          else continue st)"

definition add_extensions_to_crq ::
    "provider \<Rightarrow> string list \<Rightarrow> int \<Rightarrow> int \<Rightarrow> SECKEYPublicKey \<Rightarrow> SECKEYPublicKey
       \<Rightarrow> string option \<Rightarrow> control \<times> ext_state" where
  "add_extensions_to_crq P log is_ca is_self_signed pubkey spubkey url =
     (let st0 = \<lparr>handle = [], messages = log\<rparr>;
          after_ca = (\<lambda>st.
            check_rc (add_extended_key_usage P st) (\<lambda>st.
            check_rc (if is_self_signed \<noteq> 0 then add_auth_key_id P st pubkey
                      else add_auth_key_id P st spubkey) (\<lambda>st.
            check_rc (add_auth_info P st url) (\<lambda>st. (Returned 0, st)))))
      in if \<not> CERT_StartCertificateRequestAttributes P
         then cmsreterr (-1) st0 ''could not generate certificate extensions''
         else check_rc (add_subject_key_id P st0 pubkey) (\<lambda>st.
           if is_ca \<noteq> 0
           then check_rc (add_basic_constraints P st) (\<lambda>st.
                check_rc (add_key_usage P st) after_ca)
           else after_ca st))"


text \<open>Lines 142--148: the key identifier the provider computes for a public key.\<close>

definition key_id :: "provider \<Rightarrow> SECKEYPublicKey \<Rightarrow> bytes option" where
  "key_id P pubkey =
     (case PK11_DEREncodePublicKey P pubkey of
        None \<Rightarrow> None
      | Some pubkey_der \<Rightarrow> PK11_MakeIDFromPubKey P pubkey_der)"


section \<open>Inputs for evaluation\<close>

text \<open>
  A small provider on which the definitions can be evaluated: every call succeeds, the
  only OID it knows is sha256WithRSAEncryption (1.2.840.113549.1.1.11), whose algorithm
  identifier has NULL parameters, and the identifier of a key is the first 20 bytes of
  its encoding.
\<close>

definition sha256_rsa_oid :: bytes where
  "sha256_rsa_oid = [0x2a, 0x86, 0x48, 0x86, 0xf7, 0x0d, 0x01, 0x01, 0x0b]"

definition example_provider :: provider where
  "example_provider =
     \<lparr>PK11_DEREncodePublicKey = (\<lambda>k. Some k),
      PK11_MakeIDFromPubKey = (\<lambda>d. Some (take 20 d)),
      CERT_EncodeBasicConstraintValue = (\<lambda>c. Some [0x30, 0x03, 0x01, 0x01, 0xff]),
      CERT_StartCertificateRequestAttributes = True,
      CERT_AddExtension = (\<lambda>h e. True),
      SECOID_FindOIDByTag =
        (\<lambda>t. if t = SEC_OID_PKCS1_SHA256_WITH_RSA_ENCRYPTION then Some sha256_rsa_oid
             else None),
      generate_algorithm_id =
        (\<lambda>t. if t = SEC_OID_PKCS1_SHA256_WITH_RSA_ENCRYPTION
             then Some \<lparr>algorithm = \<lparr>si_type = siBuffer, si_data = sha256_rsa_oid\<rparr>,
                        parameters = \<lparr>si_type = siBuffer, si_data = [0x05, 0x00]\<rparr>\<rparr>
             else None),
      SEC_ASN1EncodeItem_ok = True,
      helper_fails = (\<lambda>name. False),
      generate_auth_info = (\<lambda>url. (0, []))\<rparr>"

definition buffer_of :: "bytes \<Rightarrow> SECItem" where
  "buffer_of bs = \<lparr>si_type = siBuffer, si_data = bs\<rparr>"

section \<open>The Orchestrator\<close>

text \<open>
  \<^verbatim>\<open>main\<close> is modelled from line 422 on, after the option parser has filled in the
  variables; \<open>options\<close> holds their values at that point, each field named after
  its variable (\<^verbatim>\<open>is_self_signed\<close> is \<open>-1\<close> unless \<^verbatim>\<open>--self-sign\<close> set it to 1, a
  string that was not given is \<^verbatim>\<open>NULL\<close>).  Messages are the format strings of the
  source with their arguments put in plainly.
\<close>

record options =
  opt_is_ca :: int
  opt_is_self_signed :: int
  opt_tokenname :: "string option"
  opt_signer :: "string option"
  opt_outfile :: string
  opt_poutfile :: "string option"
  opt_pubfile :: "string option"
  opt_cn :: "string option"
  opt_url :: "string option"
  opt_serial_str :: "string option"

text \<open>
  \<open>world\<close> holds the result of every call that leaves the program: the three calls
  of \<^verbatim>\<open>open\<close>, the provider, the helpers of \<^verbatim>\<open>cms_common.c\<close> and \<^verbatim>\<open>util.h\<close>, and
  the contents of the local variable \<^verbatim>\<open>signature\<close> where \<^verbatim>\<open>SEC_SignData\<close> has
  not assigned it.
\<close>

record world =
  open_outfile :: int
  open_poutfile :: int
  open_pubfile :: int
  read_file :: "int \<Rightarrow> bytes option"
  cms_context_alloc_ok :: bool
  strdup_ok :: bool
  NSS_InitReadWrite_ok :: bool
  find_certificate_ok :: bool
  strtoull :: "string \<Rightarrow> nat \<times> bool"
  generate_signing_certificate ::
    "string option \<Rightarrow> int \<Rightarrow> int \<Rightarrow> string option \<Rightarrow> nat \<Rightarrow> bytes option
       \<Rightarrow> bytes option"
  PK11_FindKeyByAnyCert_ok :: bool
  SEC_SignData :: "bytes \<Rightarrow> bytes option"
  uninitialised_signature :: SECItem
  write_result :: "int \<Rightarrow> bytes \<Rightarrow> int"
  nss :: provider

datatype event =
    Open "string option"
  | ReadFile int
  | Close int
  | GenerateCertificate
  | SignData bytes
  | BundleSignature
  | Write int bytes
  | Unlink string

datatype outcome =
    Exit int string
  | Return int
  | Undefined string

definition ULLONG_MAX :: nat where
  "ULLONG_MAX = 2 ^ 64 - 1"

text \<open>Lines 422--433.  The result is the message of \<^verbatim>\<open>errx\<close> or the settled \<^verbatim>\<open>is_self_signed\<close>.\<close>

definition main_validate :: "options \<Rightarrow> string + int" where
  "main_validate opts =
     (let self_signed =
            (if opt_is_self_signed opts = -1
             then (if opt_is_ca opts \<noteq> 0 \<and> opt_signer opts = None then 1 else 0)
             else opt_is_self_signed opts)
      in if self_signed \<noteq> 0 \<and> opt_signer opts \<noteq> None
         then Inl ''efikeygen: --self-sign and --signer cannot be used at the same time.''
         else if opt_cn opts = None
         then Inl ''efikeygen: --common-name must be specified''
         else if self_signed = 0 \<and> opt_signer opts = None
         then Inl ''efikeygen: signing certificate is required''
         else Inr self_signed)"

text \<open>
  Lines 520--539: the certificate is signed, bundled and written.  Neither
  \<^verbatim>\<open>status\<close> nor the value of \<^verbatim>\<open>bundle_signature\<close> is looked at; where
  \<^verbatim>\<open>bundle_signature\<close> returns \<open>-1\<close>, \<^verbatim>\<open>sigder\<close> is still the empty item it was
  initialised to.
\<close>

definition main_sign_and_write ::
    "options \<Rightarrow> world \<Rightarrow> int \<Rightarrow> int \<Rightarrow> bytes \<Rightarrow> event list \<Rightarrow> event list \<times> outcome" where
  "main_sign_and_write opts W outfd p12fd certder tr =
     (let signature =
            (case SEC_SignData W certder of
               Some sig \<Rightarrow> \<lparr>si_type = siBuffer, si_data = sig\<rparr>
             | None \<Rightarrow> uninitialised_signature W);
          tr1 = tr @ [SignData certder, BundleSignature]
      in case bundle_signature (nss W) \<lparr>si_type = siBuffer, si_data = certder\<rparr>
                SEC_OID_PKCS1_SHA256_WITH_RSA_ENCRYPTION signature of
           Inl (Errx msg) \<Rightarrow> (tr1, Exit 1 msg)
         | Inl (Undefined_behaviour what) \<Rightarrow> (tr1, Undefined what)
         | other \<Rightarrow>
            (let sigder = (case other of Inr out \<Rightarrow> out | Inl e \<Rightarrow> []);
                 tr2 = tr1 @ [Write outfd sigder]
             in if write_result W outfd sigder < 0
                then (tr2 @ [Unlink (opt_outfile opts)],
                      Exit 1 (''efikeygen: could not write to '' @ opt_outfile opts))
                else (tr2 @ [Close outfd, Close p12fd], Return 0)))"

text \<open>Lines 463--518: the context, the provider, the serial number, the certificate.\<close>

definition main_certificate ::
    "options \<Rightarrow> world \<Rightarrow> int \<Rightarrow> int \<Rightarrow> int \<Rightarrow> bytes option \<Rightarrow> event list
       \<Rightarrow> event list \<times> outcome" where
  "main_certificate opts W self_signed outfd p12fd pubkey tr =
     (if \<not> cms_context_alloc_ok W
      then (tr, Exit 1 ''efikeygen: main: could not allocate cms context:'')
      else if opt_tokenname opts \<noteq> None \<and> \<not> strdup_ok W
      then (tr, Exit 1 ''efikeygen: main: could not allocate cms context:'')
      else if opt_signer opts \<noteq> None \<and> \<not> strdup_ok W
      then (tr, Exit 1 ''efikeygen: main: could not allocate cms context:'')
      else if \<not> NSS_InitReadWrite_ok W
      then (tr, Exit 1 ''efikeygen: could not initialize NSS'')
      else if self_signed = 0 \<and> \<not> find_certificate_ok W
      then (tr, Exit 1 ''efikeygen: could not find signing certificate'')
      else (case opt_serial_str opts of
         None \<Rightarrow> (tr, Undefined ''strtoull(NULL)'')
       | Some str \<Rightarrow>
          (case strtoull W str of
             (serial, erange) \<Rightarrow>
               if erange \<and> serial = ULLONG_MAX
               then (tr, Exit 1 ''efikeygen: invalid serial number'')
               else (case generate_signing_certificate W (opt_cn opts) (opt_is_ca opts) self_signed
                            (opt_url opts) serial pubkey of
                  None \<Rightarrow>
                    (tr @ [GenerateCertificate],
                     Exit 1 ''efikeygen: could not generate certificate'')
                | Some certder \<Rightarrow>
                   if SECOID_FindOIDByTag (nss W)
                        SEC_OID_PKCS1_SHA256_WITH_RSA_ENCRYPTION = None
                   then (tr @ [GenerateCertificate],
                         Exit 1 ''efikeygen: could not find OID for SHA256+RSA'')
                   else if \<not> PK11_FindKeyByAnyCert_ok W
                   then (tr @ [GenerateCertificate],
                         Exit 1 ''efikeygen: could not find private key'')
                   else main_sign_and_write opts W outfd p12fd certder
                          (tr @ [GenerateCertificate])))))"

text \<open>
  Lines 435--461: the output files are opened and the public key is read.  The test
  after the second \<^verbatim>\<open>open\<close> is the source's, on \<^verbatim>\<open>outfd\<close>.
\<close>

definition main_files :: "options \<Rightarrow> world \<Rightarrow> int \<Rightarrow> event list \<times> outcome" where
  "main_files opts W self_signed =
     (let outfd = open_outfile W;
          tr0 = [Open (Some (opt_outfile opts))]
      in if outfd < 0
         then (tr0, Exit 1 (''efikeygen: could not open '' @ opt_outfile opts))
         else
           let p12fd = open_poutfile W;
               tr1 = tr0 @ [Open (opt_poutfile opts)]
           in if outfd < 0
              then (tr1, Exit 1 (''efikeygen: could not open ''
                                   @ (case opt_poutfile opts of None \<Rightarrow> ''(null)'' | Some p \<Rightarrow> p)))
              else (case opt_pubfile opts of
                 None \<Rightarrow> main_certificate opts W self_signed outfd p12fd None tr1
               | Some path \<Rightarrow>
                  (let pubfd = open_pubfile W;
                       tr2 = tr1 @ [Open (Some path), ReadFile pubfd]
                   in case read_file W pubfd of
                        None \<Rightarrow> (tr2, Exit 1 ''efikeygen: could not read public key'')
                      | Some data \<Rightarrow>
                          main_certificate opts W self_signed outfd p12fd (Some data)
                            (tr2 @ [Close pubfd]))))"

definition main :: "options \<Rightarrow> world \<Rightarrow> event list \<times> outcome" where
  "main opts W =
     (case main_validate opts of
        Inl msg \<Rightarrow> ([], Exit 1 msg)
      | Inr self_signed \<Rightarrow> main_files opts W self_signed)"

text \<open>Options and a world for evaluation: a self-signed CA, every call succeeding.\<close>

definition example_options :: options where
  "example_options =
     \<lparr>opt_is_ca = 1, opt_is_self_signed = -1, opt_tokenname = Some ''NSS Certificate DB'',
      opt_signer = None, opt_outfile = ''signed.cer'', opt_poutfile = None, opt_pubfile = None,
      opt_cn = Some ''Test CA'', opt_url = None, opt_serial_str = Some ''1''\<rparr>"

definition example_world :: world where
  "example_world =
     \<lparr>open_outfile = 3, open_poutfile = -1, open_pubfile = -1,
      read_file = (\<lambda>fd. None),
      cms_context_alloc_ok = True, strdup_ok = True, NSS_InitReadWrite_ok = True,
      find_certificate_ok = True,
      strtoull = (\<lambda>s. (1, False)),
      generate_signing_certificate = (\<lambda>name ca ss u serial pubkey. Some [0x30, 0x00]),
      PK11_FindKeyByAnyCert_ok = True,
      SEC_SignData = (\<lambda>tbs. Some (replicate 256 0xAB)),
      uninitialised_signature = \<lparr>si_type = siBuffer, si_data = replicate 256 0x00\<rparr>,
      write_result = (\<lambda>fd bs. int (length bs)),
      nss = example_provider\<rparr>"

section \<open>Facts about the DER primitives\<close>

lemma length_be_digits_pos: "0 < length (be_digits n)"
  by (induction n rule: be_digits.induct) (subst be_digits.simps, simp)

lemma length_be_digits_le: "0 < k \<Longrightarrow> n < 256 ^ k \<Longrightarrow> length (be_digits n) \<le> k"
proof (induction n arbitrary: k rule: be_digits.induct)
  case (1 n)
  show ?case
  proof (cases "n < 256")
    case True
    then show ?thesis using "1.prems" by (subst be_digits.simps) simp
  next
    case False
    obtain j where k: "k = Suc j"
      using "1.prems" by (cases k) auto
    have j: "0 < j"
      using False "1.prems"(2) k by (cases j) auto
    have "n div 256 < 256 ^ j"
      using "1.prems"(2) k by (simp add: less_mult_imp_div_less mult.commute)
    then have "length (be_digits (n div 256)) \<le> j"
      using "1.IH" [OF False j] by simp
    then show ?thesis using False k by (subst be_digits.simps) simp
  qed
qed

lemma be_digits_small: "n < 256 \<Longrightarrow> be_digits n = [of_nat n]"
  by (subst be_digits.simps) simp

lemma be_digits_step: "256 \<le> n \<Longrightarrow> be_digits n = be_digits (n div 256) @ [of_nat (n mod 256)]"
  by (subst be_digits.simps) simp

lemma length_be_digits_1: "length (be_digits n) = 1 \<longleftrightarrow> n < 256"
proof (cases "n < 256")
  case True then show ?thesis by (simp add: be_digits_small)
next
  case False
  then show ?thesis using length_be_digits_pos [of "n div 256"]
    by (simp add: be_digits_step)
qed

lemma length_be_digits_2: "length (be_digits n) = 2 \<longleftrightarrow> 256 \<le> n \<and> n < 65536"
proof (cases "n < 256")
  case True then show ?thesis by (simp add: be_digits_small)
next
  case False
  then have "length (be_digits n) = 2 \<longleftrightarrow> length (be_digits (n div 256)) = 1"
    by (simp add: be_digits_step)
  also have "\<dots> \<longleftrightarrow> n div 256 < 256" by (rule length_be_digits_1)
  also have "\<dots> \<longleftrightarrow> n < 65536" by (simp add: div_less_iff_less_mult)
  finally show ?thesis using False by simp
qed



lemma length_der_tlv: "length (der_tlv t c) = Suc (length (der_length (length c)) + length c)"
  by (simp add: der_tlv_def)

lemma der_tlv_retag: "(der_tlv t c)[0 := t'] = der_tlv t' c"
  by (simp add: der_tlv_def)

lemma der_tlv_append_retag:
  "(pre @ der_tlv t c)[length pre := t'] = pre @ der_tlv t' c"
  by (simp add: list_update_append der_tlv_retag)

lemma der_sequence_split:
  "der_tlv DER_SEQUENCE (xs @ der_tlv t c) =
     (DER_SEQUENCE # der_length (length xs + length (der_tlv t c)) @ xs) @ der_tlv t c"
  by (simp add: der_tlv_def)


lemma signature_field_261:
  "length (der_tlv t (0 # sig)) = 261 \<longleftrightarrow> length sig = 256"
proof
  assume "length sig = 256"
  then show "length (der_tlv t (0 # sig)) = 261"
    by (simp add: der_tlv_def der_length_def be_digits_step be_digits_small)
next
  assume a: "length (der_tlv t (0 # sig)) = 261"
  show "length sig = 256"
  proof (cases "Suc (length sig) < 128")
    case True
    then show ?thesis using a by (simp add: der_tlv_def der_length_def)
  next
    case False
    let ?k = "length (be_digits (Suc (length sig)))"
    from a False have k: "?k + length sig = 258"
      by (simp add: der_tlv_def der_length_def)
    have "0 < ?k" by (rule length_be_digits_pos)
    show ?thesis
    proof (cases "Suc (length sig) < 256")
      case True
      then have "?k = 1" using length_be_digits_1 [of "Suc (length sig)"] by simp
      with k True show ?thesis by simp
    next
      case F2: False
      show ?thesis
      proof (cases "Suc (length sig) < 65536")
        case True
        with F2 have "?k = 2" using length_be_digits_2 [of "Suc (length sig)"] by simp
        with k show ?thesis by simp
      next
        case False
        with k show ?thesis by simp
      qed
    qed
  qed
qed

section \<open>Facts about the DER reader\<close>

lemma be_value_snoc: "be_value (xs @ [b]) = 256 * be_value xs + unat b"
  by (simp add: be_value_def)

lemma be_value_be_digits: "be_value (be_digits n) = n"
proof (induction n rule: be_digits.induct)
  case (1 n)
  show ?case
  proof (cases "n < 256")
    case True
    then show ?thesis
      by (subst be_digits.simps) (simp add: be_value_def unat_of_nat)
  next
    case False
    then show ?thesis
      using "1.IH" by (subst be_digits.simps) (simp add: be_value_snoc unat_of_nat)
  qed
qed

lemma der_read_length_der_length:
  assumes "n < uint_modulus"
  shows "der_read_length (der_length n @ rest) = Some (n, rest)"
proof (cases "n < 128")
  case True
  then show ?thesis
    by (simp add: der_read_length_def der_length_def unat_of_nat)
next
  case False
  have le: "length (be_digits n) \<le> 4"
    using assms by (intro length_be_digits_le) (simp_all add: uint_modulus_def)
  have pos: "0 < length (be_digits n)" by (rule length_be_digits_pos)
  have u: "unat (of_nat (128 + length (be_digits n)) :: byte) = 128 + length (be_digits n)"
    using le by (subst unat_of_nat) simp
  show ?thesis
    using False pos
    by (simp add: der_read_length_def der_length_def u be_value_be_digits del: of_nat_add)
qed

lemma der_read_tlv_der_tlv:
  assumes "length c < uint_modulus"
  shows "der_read_tlv (der_tlv t c @ rest) = Some (t, c, rest)"
  using assms by (simp add: der_read_tlv_def der_tlv_def der_read_length_der_length)

lemma der_read_length_append:
  "der_read_length xs = Some (n, r) \<Longrightarrow> der_read_length (xs @ ys) = Some (n, r @ ys)"
  by (cases xs) (auto simp: der_read_length_def split: if_splits)

lemma der_read_tlv_append:
  "der_read_tlv xs = Some (t, c, r) \<Longrightarrow> der_read_tlv (xs @ ys) = Some (t, c, r @ ys)"
  by (cases xs)
     (auto simp: der_read_tlv_def der_read_length_append split: option.splits if_splits)

lemma der_read_any_append:
  assumes "der_read_any xs = Some (xs, [])"
  shows "der_read_any (xs @ ys) = Some (xs, ys)"
proof -
  from assms obtain t c where "der_read_tlv xs = Some (t, c, [])"
    by (auto simp: der_read_any_def split: option.splits)
  then have "der_read_tlv (xs @ ys) = Some (t, c, ys)"
    using der_read_tlv_append by fastforce
  then show ?thesis by (simp add: der_read_any_def)
qed

lemma decode_SignedCert_encoding:
  assumes tbs: "der_read_any tbs = Some (tbs, [])"
    and len: "length (der_tlv DER_SEQUENCE (tbs @ encode_AlgorithmID a
                 @ der_tlv DER_BIT_STRING bits)) < uint_modulus"
  shows "decode_SignedCert (der_tlv DER_SEQUENCE (tbs @ encode_AlgorithmID a
                 @ der_tlv DER_BIT_STRING bits))
         = Some \<lparr>dec_tbs = tbs, dec_oid = si_data (algorithm a),
                 dec_parameters = si_data (parameters a), dec_bit_string = bits\<rparr>"
proof -
  let ?oid = "si_data (algorithm a)" and ?par = "si_data (parameters a)"
  let ?alg = "der_tlv DER_OBJECT_ID ?oid @ ?par"
  let ?body = "tbs @ encode_AlgorithmID a @ der_tlv DER_BIT_STRING bits"
  have l0: "length ?body < uint_modulus"
    using len by (simp add: length_der_tlv)
  have l1: "length ?alg < uint_modulus"
    using l0 by (simp add: encode_AlgorithmID_def length_der_tlv)
  have l2: "length ?oid < uint_modulus"
    using l1 by (simp add: length_der_tlv)
  have l3: "length bits < uint_modulus"
    using l0 by (simp add: length_der_tlv)
  have 1: "der_read_tlv (der_tlv DER_SEQUENCE ?body) = Some (DER_SEQUENCE, ?body, [])"
    using der_read_tlv_der_tlv [OF l0, of DER_SEQUENCE "[]"] by simp
  have 2: "der_read_any ?body
             = Some (tbs, encode_AlgorithmID a @ der_tlv DER_BIT_STRING bits)"
    by (rule der_read_any_append [OF tbs])
  have 3: "der_read_tlv (encode_AlgorithmID a @ der_tlv DER_BIT_STRING bits)
             = Some (DER_SEQUENCE, ?alg, der_tlv DER_BIT_STRING bits)"
    unfolding encode_AlgorithmID_def by (rule der_read_tlv_der_tlv [OF l1])
  have 4: "der_read_tlv ?alg = Some (DER_OBJECT_ID, ?oid, ?par)"
    by (rule der_read_tlv_der_tlv [OF l2])
  have 5: "der_read_tlv (der_tlv DER_BIT_STRING bits) = Some (DER_BIT_STRING, bits, [])"
    using der_read_tlv_der_tlv [OF l3, of DER_BIT_STRING "[]"] by simp
  show ?thesis
    by (simp add: decode_SignedCert_def 1 2 3 4 5)
qed

section \<open>What the Bundler returns\<close>

lemma signature_buffer_Some:
  "signature_buffer s = Some buf \<longleftrightarrow> si_len s + 1 < uint_modulus \<and> buf = 0 # si_data s"
proof -
  have m: "si_len s + 1 \<le> (si_len s + 1) mod uint_modulus \<longleftrightarrow> si_len s + 1 < uint_modulus"
    by (metis mod_less mod_less_divisor le_refl not_le uint_modulus_def zero_less_numeral zero_less_power less_le_trans)
  show ?thesis
  proof (cases "si_len s + 1 < uint_modulus")
    case True
    then have r: "replicate ((si_len s + 1) mod uint_modulus) (0::byte) = 0 # replicate (si_len s) 0"
      by simp
    show ?thesis using True
      by (auto simp: signature_buffer_def memcpy_def calloc_def si_len_def)
  next
    case False
    then show ?thesis using m
      by (auto simp: signature_buffer_def memcpy_def calloc_def si_len_def)
  qed
qed

lemma signature_buffer_None:
  "signature_buffer s = None \<longleftrightarrow> \<not> si_len s + 1 < uint_modulus"
  using signature_buffer_Some [of s] by (cases "signature_buffer s") auto

lemma patch_index_eq: "261 \<le> n \<Longrightarrow> n < uint_modulus \<Longrightarrow> patch_index n = n - 261"
  by (simp add: patch_index_def uint_modulus_def nat_diff_distrib)

lemma patch_index_wraps: "n < 261 \<Longrightarrow> \<not> patch_index n < n"
proof -
  assume a: "n < 261"
  have "(int n - 261 + 4294967296) mod 4294967296 = int n - 261 + 4294967296"
    using a by (intro mod_pos_pos_trivial) auto
  moreover have "(int n - 261 + 4294967296) mod 4294967296 = (int n - 261) mod 4294967296"
    by (rule mod_add_self2)
  ultimately have "(int n - 261) mod 4294967296 = int n - 261 + 4294967296"
    by simp
  then show ?thesis using a by (simp add: patch_index_def uint_modulus_def)
qed

lemma patch_index_in_range:
  "n < uint_modulus \<Longrightarrow> patch_index n < n \<longleftrightarrow> 261 \<le> n"
  using patch_index_wraps [of n] patch_index_eq [of n] by (cases "261 \<le> n") auto

lemma bundle_encode_Inr:
  "bundle_encode P d oid s = Inr enc \<longleftrightarrow>
     (\<exists>kt. generate_algorithm_id P oid = Some kt
        \<and> SEC_ASN1EncodeItem_ok P \<and> si_len s + 1 < uint_modulus
        \<and> enc = der_tlv DER_SEQUENCE (si_data d @ encode_AlgorithmID kt
                   @ der_tlv DER_OCTET_STRING (0 # si_data s))
        \<and> length enc < uint_modulus)"
  by (auto simp: bundle_encode_def signature_buffer_Some signature_buffer_None
      encode_SignedCert_def Let_def
      split: option.splits if_splits)

lemma bundle_signature_Inr:
  "bundle_signature P d oid s = Inr out \<longleftrightarrow>
     (\<exists>enc. bundle_encode P d oid s = Inr enc \<and> 261 \<le> length enc
        \<and> out = enc[length enc - 261 := DER_BIT_STRING])"
proof -
  have "bundle_encode P d oid s = Inr enc \<Longrightarrow> length enc < uint_modulus" for enc
    by (simp add: bundle_encode_Inr) blast
  then show ?thesis
    by (auto simp: bundle_signature_def patch_index_in_range patch_index_eq split: sum.splits)
qed

lemma bundle_encode_shape:
  assumes "bundle_encode P d oid s = Inr enc"
  shows "\<exists>pre kt. generate_algorithm_id P oid = Some kt
           \<and> enc = pre @ der_tlv DER_OCTET_STRING (0 # si_data s)
           \<and> pre @ der_tlv DER_BIT_STRING (0 # si_data s)
               = der_tlv DER_SEQUENCE (si_data d @ encode_AlgorithmID kt
                   @ der_tlv DER_BIT_STRING (0 # si_data s))"
proof -
  from assms obtain kt where g: "generate_algorithm_id P oid = Some kt"
    and e: "enc = der_tlv DER_SEQUENCE (si_data d @ encode_AlgorithmID kt
                   @ der_tlv DER_OCTET_STRING (0 # si_data s))"
    unfolding bundle_encode_Inr by blast
  let ?xs = "si_data d @ encode_AlgorithmID kt"
  let ?pre = "DER_SEQUENCE # der_length (length ?xs
                 + length (der_tlv DER_OCTET_STRING (0 # si_data s))) @ ?xs"
  have 1: "enc = ?pre @ der_tlv DER_OCTET_STRING (0 # si_data s)"
    using e der_sequence_split [of ?xs DER_OCTET_STRING "0 # si_data s"] by simp
  have 2: "?pre @ der_tlv DER_BIT_STRING (0 # si_data s)
        = der_tlv DER_SEQUENCE (?xs @ der_tlv DER_BIT_STRING (0 # si_data s))"
    using der_sequence_split [of ?xs DER_BIT_STRING "0 # si_data s"]
    by (simp add: length_der_tlv)
  show ?thesis using 1 2 g by (intro exI [of _ ?pre] exI [of _ kt]) simp
qed

lemma bundle_signature_unused_bits:
  assumes "bundle_signature P d oid s = Inr out" and "si_len s \<noteq> 260"
  shows "out ! (length out - (si_len s + 1)) = 0"
proof -
  from assms(1) obtain enc where enc: "bundle_encode P d oid s = Inr enc"
    and len: "261 \<le> length enc" and out: "out = enc[length enc - 261 := DER_BIT_STRING]"
    unfolding bundle_signature_Inr by blast
  from bundle_encode_shape [OF enc] obtain pre
    where pre: "enc = pre @ der_tlv DER_OCTET_STRING (0 # si_data s)" by blast
  let ?hd = "pre @ DER_OCTET_STRING # der_length (Suc (si_len s))"
  have e: "enc = ?hd @ 0 # si_data s"
    using pre by (simp add: der_tlv_def si_len_def)
  then have l: "length enc - (si_len s + 1) = length ?hd"
    by (simp add: si_len_def)
  have t: "length enc = length ?hd + (si_len s + 1)"
    by (subst e) (simp add: si_len_def)
  have ne: "length enc - 261 \<noteq> length ?hd"
    using t assms(2) len by linarith
  have "out ! length ?hd = enc ! length ?hd"
    using ne out by simp
  also have "\<dots> = 0"
    by (subst e) (simp only: nth_append_length)
  finally show ?thesis using l out by simp
qed

lemma bundle_signature_algid_failure:
  assumes "si_len s + 1 < uint_modulus" and "generate_algorithm_id P oid = None"
  shows "bundle_signature P d oid s = Inl Returned_minus_1"
proof -
  have "signature_buffer s = Some (0 # si_data s)"
    using assms(1) by (simp add: signature_buffer_Some)
  then show ?thesis
    using assms(2) by (simp add: bundle_signature_def bundle_encode_def)
qed

text \<open>
  Claim C3, as amended.  The signature buffer is exactly one byte longer than the raw
  signature, holds the raw signature from offset 1 on, and its byte 0 is \<open>0x00\<close>.
  In the Bundler's output the image of that byte, the unused-bits octet
  \<open>length signature + 1\<close> bytes before the end, is \<open>0x00\<close> for every signature
  whose length is not 260; at length 260 the patch of line 107 falls on it.
\<close>

theorem signature_buffer_unused_bits_octet:
  "(signature_buffer s = Some buf \<longrightarrow>
       length buf = si_len s + 1 \<and> drop 1 buf = si_data s \<and> buf ! 0 = 0)
   \<and> (bundle_signature P d oid s = Inr out \<and> si_len s \<noteq> 260 \<longrightarrow>
       signature_buffer s = Some (0 # si_data s)
       \<and> out ! (length out - (si_len s + 1)) = 0)"
proof (intro conjI impI)
  assume "signature_buffer s = Some buf"
  then have b: "buf = 0 # si_data s" by (simp add: signature_buffer_Some)
  show "length buf = si_len s + 1" using b by (simp add: si_len_def)
  show "drop 1 buf = si_data s" using b by simp
  show "buf ! 0 = 0" using b by simp
next
  assume a: "bundle_signature P d oid s = Inr out \<and> si_len s \<noteq> 260"
  then show "out ! (length out - (si_len s + 1)) = 0"
    using bundle_signature_unused_bits by blast
  from a obtain enc where "bundle_encode P d oid s = Inr enc"
    unfolding bundle_signature_Inr by blast
  then show "signature_buffer s = Some (0 # si_data s)"
    by (simp add: bundle_encode_Inr signature_buffer_Some) blast
qed

text \<open>
  Claim C2, as amended.  Whenever the Bundler produces output, it is the encoding with
  exactly one byte overwritten, the byte 261 before the end, with the BIT STRING tag.
  The encoding ends with the signature field, an OCTET STRING; the overwritten
  position is the tag octet of that field exactly when the raw signature has 256
  bytes, and then the output ends with the same field under the BIT STRING tag.
\<close>

theorem bundle_signature_patch_position:
  assumes "bundle_signature P d oid s = Inr out"
  shows "\<exists>enc pre. bundle_encode P d oid s = Inr enc
           \<and> out = enc[length enc - 261 := DER_BIT_STRING]
           \<and> 261 \<le> length enc
           \<and> enc = pre @ der_tlv DER_OCTET_STRING (0 # si_data s)
           \<and> (length enc - 261 = length pre \<longleftrightarrow> si_len s = 256)
           \<and> (si_len s = 256 \<longrightarrow> out = pre @ der_tlv DER_BIT_STRING (0 # si_data s))"
proof -
  from assms obtain enc where enc: "bundle_encode P d oid s = Inr enc"
    and len: "261 \<le> length enc" and out: "out = enc[length enc - 261 := DER_BIT_STRING]"
    unfolding bundle_signature_Inr by blast
  from bundle_encode_shape [OF enc] obtain pre
    where pre: "enc = pre @ der_tlv DER_OCTET_STRING (0 # si_data s)" by blast
  have pos: "length enc - 261 = length pre \<longleftrightarrow> si_len s = 256"
  proof -
    have "length enc - 261 = length pre \<longleftrightarrow> length (der_tlv DER_OCTET_STRING (0 # si_data s)) = 261"
      using pre len by auto
    then show ?thesis by (simp only: signature_field_261 si_len_def)
  qed
  have "out = pre @ der_tlv DER_BIT_STRING (0 # si_data s)" if "si_len s = 256"
  proof -
    from that pos have "length enc - 261 = length pre" by simp
    then show ?thesis
      using out pre der_tlv_append_retag [of pre DER_OCTET_STRING "0 # si_data s" DER_BIT_STRING]
      by simp
  qed
  then show ?thesis using enc len out pre pos by blast
qed

text \<open>
  Claim C1, as amended.  For a raw signature of exactly 256 bytes and a
  \<open>tbs_data\<close> that is one well-formed DER element, decoding the output of the
  Bundler yields the \<open>tbs_data\<close> bytes unchanged, the OID of the algorithm identifier
  resolved for the input OID tag, and a BIT STRING whose contents are the octet \<open>0x00\<close>
  followed by the raw signature.
\<close>

theorem bundle_signature_roundtrip:
  assumes "bundle_signature P d oid s = Inr out"
    and "si_len s = 256"
    and "der_read_any (si_data d) = Some (si_data d, [])"
  shows "map_option dec_tbs (decode_SignedCert out) = Some (si_data d)
       \<and> map_option dec_oid (decode_SignedCert out)
           = map_option (\<lambda>keytype. si_data (algorithm keytype)) (generate_algorithm_id P oid)
       \<and> map_option (drop 1 \<circ> dec_bit_string) (decode_SignedCert out) = Some (si_data s)
       \<and> map_option (take 1 \<circ> dec_bit_string) (decode_SignedCert out) = Some [0]"
proof -
  from assms(1) obtain enc where enc: "bundle_encode P d oid s = Inr enc"
    and len: "261 \<le> length enc" and out: "out = enc[length enc - 261 := DER_BIT_STRING]"
    unfolding bundle_signature_Inr by blast
  from bundle_encode_shape [OF enc] obtain pre kt
    where kt: "generate_algorithm_id P oid = Some kt"
      and pre: "enc = pre @ der_tlv DER_OCTET_STRING (0 # si_data s)"
      and seq: "pre @ der_tlv DER_BIT_STRING (0 # si_data s)
               = der_tlv DER_SEQUENCE (si_data d @ encode_AlgorithmID kt
                   @ der_tlv DER_BIT_STRING (0 # si_data s))"
    by blast
  have "length (der_tlv DER_OCTET_STRING (0 # si_data s)) = 261"
    using assms(2) by (simp only: signature_field_261 si_len_def)
  then have "length enc - 261 = length pre" using pre by simp
  then have o: "out = pre @ der_tlv DER_BIT_STRING (0 # si_data s)"
    using out pre der_tlv_append_retag [of pre DER_OCTET_STRING "0 # si_data s" DER_BIT_STRING]
    by simp
  have "length out = length enc" using out by simp
  moreover have "length enc < uint_modulus"
    using enc unfolding bundle_encode_Inr by blast
  ultimately have l: "length out < uint_modulus" by simp
  have "decode_SignedCert out
        = Some \<lparr>dec_tbs = si_data d, dec_oid = si_data (algorithm kt),
                dec_parameters = si_data (parameters kt),
                dec_bit_string = 0 # si_data s\<rparr>"
    using decode_SignedCert_encoding [OF assms(3), of kt "0 # si_data s"] l o seq by simp
  then show ?thesis using kt by simp
qed

section \<open>The Bundler on concrete inputs\<close>

lemma list_update_Cons_numeral:
  "(x # xs)[numeral n := y] = x # xs[pred_numeral n := y]"
  by (simp add: numeral_eq_Suc)

lemma list_update_replicate:
  "i < n \<Longrightarrow> (replicate n x)[i := y] = replicate i x @ y # replicate (n - Suc i) x"
  by (simp add: upd_conv_take_nth_drop min_def)

lemmas der_eval = der_tlv_def der_length_def be_digits_step be_digits_small
  encode_AlgorithmID_def DER_SEQUENCE_def DER_OCTET_STRING_def DER_BIT_STRING_def
  DER_OBJECT_ID_def

lemma example_algorithm_id:
  "encode_AlgorithmID \<lparr>algorithm = \<lparr>si_type = siBuffer, si_data = sha256_rsa_oid\<rparr>,
                       parameters = \<lparr>si_type = siBuffer, si_data = [0x05, 0x00]\<rparr>\<rparr>
   = [0x30, 0x0d, 0x06, 0x09, 0x2a, 0x86, 0x48, 0x86, 0xf7, 0x0d, 0x01, 0x01, 0x0b, 0x05, 0x00]"
  by (simp add: sha256_rsa_oid_def der_eval)

lemma bundle_encode_example:
  assumes "length (der_tlv DER_SEQUENCE (tbs
             @ [0x30, 0x0d, 0x06, 0x09, 0x2a, 0x86, 0x48, 0x86, 0xf7, 0x0d, 0x01, 0x01, 0x0b,
                0x05, 0x00]
             @ der_tlv DER_OCTET_STRING (0 # sig))) < uint_modulus"
  shows "bundle_encode example_provider (buffer_of tbs)
           SEC_OID_PKCS1_SHA256_WITH_RSA_ENCRYPTION (buffer_of sig)
         = Inr (der_tlv DER_SEQUENCE (tbs
             @ [0x30, 0x0d, 0x06, 0x09, 0x2a, 0x86, 0x48, 0x86, 0xf7, 0x0d, 0x01, 0x01, 0x0b,
                0x05, 0x00]
             @ der_tlv DER_OCTET_STRING (0 # sig)))"
proof -
  have "length sig + 1 < uint_modulus"
    using assms by (simp add: length_der_tlv)
  then show ?thesis
    unfolding bundle_encode_Inr using assms
    by (simp add: example_provider_def buffer_of_def si_len_def example_algorithm_id)
qed

lemma der_read_tlv_short:
  "unat l < 128 \<Longrightarrow> der_read_tlv (t # l # rest) =
     (if length rest < unat l then None
      else Some (t, take (unat l) rest, drop (unat l) rest))"
  by (simp add: der_read_tlv_def der_read_length_def)

lemma der_read_tlv_long2:
  "der_read_tlv (t # 0x82 # a # b # rest) =
     (if length rest < 256 * unat a + unat b then None
      else Some (t, take (256 * unat a + unat b) rest, drop (256 * unat a + unat b) rest))"
  by (simp add: der_read_tlv_def der_read_length_def be_value_def)

lemma der_read_any_empty_sequence: "der_read_any [0x30, 0x00] = Some ([0x30, 0x00], [])"
  by (simp add: der_read_any_def der_read_tlv_short)

lemma bundle_signature_256_example:
  "bundle_signature example_provider (buffer_of [0x30, 0x00])
           SEC_OID_PKCS1_SHA256_WITH_RSA_ENCRYPTION (buffer_of (replicate 256 x))
   = Inr ([0x30, 0x82, 0x01, 0x16, 0x30, 0x00,
           0x30, 0x0d, 0x06, 0x09, 0x2a, 0x86, 0x48, 0x86, 0xf7, 0x0d, 0x01, 0x01, 0x0b,
           0x05, 0x00, 0x03, 0x82, 0x01, 0x01, 0x00] @ replicate 256 x)"
proof -
  have "bundle_encode example_provider (buffer_of [0x30, 0x00])
           SEC_OID_PKCS1_SHA256_WITH_RSA_ENCRYPTION (buffer_of (replicate 256 x))
   = Inr ([0x30, 0x82, 0x01, 0x16, 0x30, 0x00,
           0x30, 0x0d, 0x06, 0x09, 0x2a, 0x86, 0x48, 0x86, 0xf7, 0x0d, 0x01, 0x01, 0x0b,
           0x05, 0x00, 0x04, 0x82, 0x01, 0x01, 0x00] @ replicate 256 x)"
    by (subst bundle_encode_example)
     (simp_all add: der_eval
        uint_modulus_def)
  then show ?thesis
    unfolding bundle_signature_Inr
    by (simp add: list_update_Cons_numeral DER_BIT_STRING_def)
qed

text \<open>
  A 256-byte signature over an empty SEQUENCE: the output, and what the reader gets back from it.
\<close>

theorem bundle_signature_roundtrip_witness:
  "bundle_signature example_provider (buffer_of [0x30, 0x00])
       SEC_OID_PKCS1_SHA256_WITH_RSA_ENCRYPTION (buffer_of (replicate 256 0xAB))
     = Inr ([0x30, 0x82, 0x01, 0x16, 0x30, 0x00,
           0x30, 0x0d, 0x06, 0x09, 0x2a, 0x86, 0x48, 0x86, 0xf7, 0x0d, 0x01, 0x01, 0x0b,
           0x05, 0x00, 0x03, 0x82, 0x01, 0x01, 0x00] @ replicate 256 0xAB)
   \<and> si_len (buffer_of (replicate 256 0xAB)) = 256
   \<and> der_read_any (si_data (buffer_of [0x30, 0x00])) = Some (si_data (buffer_of [0x30, 0x00]), [])
   \<and> map_option dec_tbs (decode_SignedCert ([0x30, 0x82, 0x01, 0x16, 0x30, 0x00,
           0x30, 0x0d, 0x06, 0x09, 0x2a, 0x86, 0x48, 0x86, 0xf7, 0x0d, 0x01, 0x01, 0x0b,
           0x05, 0x00, 0x03, 0x82, 0x01, 0x01, 0x00] @ replicate 256 0xAB)) = Some [0x30, 0x00]
   \<and> map_option dec_oid (decode_SignedCert ([0x30, 0x82, 0x01, 0x16, 0x30, 0x00,
           0x30, 0x0d, 0x06, 0x09, 0x2a, 0x86, 0x48, 0x86, 0xf7, 0x0d, 0x01, 0x01, 0x0b,
           0x05, 0x00, 0x03, 0x82, 0x01, 0x01, 0x00] @ replicate 256 0xAB)) = Some sha256_rsa_oid
   \<and> map_option (drop 1 \<circ> dec_bit_string) (decode_SignedCert ([0x30, 0x82, 0x01, 0x16, 0x30, 0x00,
           0x30, 0x0d, 0x06, 0x09, 0x2a, 0x86, 0x48, 0x86, 0xf7, 0x0d, 0x01, 0x01, 0x0b,
           0x05, 0x00, 0x03, 0x82, 0x01, 0x01, 0x00] @ replicate 256 0xAB))
        = Some (replicate 256 0xAB)"
proof -
  have l: "si_len (buffer_of (replicate 256 0xAB)) = 256"
    by (simp add: si_len_def buffer_of_def)
  have t: "der_read_any (si_data (buffer_of [0x30, 0x00])) = Some (si_data (buffer_of [0x30, 0x00]), [])"
    by (simp add: buffer_of_def der_read_any_empty_sequence)
  show ?thesis
    using bundle_signature_roundtrip [OF bundle_signature_256_example l t] l t
      bundle_signature_256_example
    by (simp add: buffer_of_def example_provider_def)
qed

lemma example_encoding_512:
  "bundle_encode example_provider (buffer_of [0x30, 0x00])
           SEC_OID_PKCS1_SHA256_WITH_RSA_ENCRYPTION (buffer_of (replicate 512 0xAB))
   = Inr ([0x30, 0x82, 0x02, 0x16, 0x30, 0x00,
           0x30, 0x0d, 0x06, 0x09, 0x2a, 0x86, 0x48, 0x86, 0xf7, 0x0d, 0x01, 0x01, 0x0b,
           0x05, 0x00, 0x04, 0x82, 0x02, 0x01, 0x00] @ replicate 512 0xAB)"
  by (subst bundle_encode_example)
     (simp_all add: der_eval
        uint_modulus_def)

lemma bundle_signature_512:
  "bundle_signature example_provider (buffer_of [0x30, 0x00])
           SEC_OID_PKCS1_SHA256_WITH_RSA_ENCRYPTION (buffer_of (replicate 512 0xAB))
   = Inr ([0x30, 0x82, 0x02, 0x16, 0x30, 0x00,
           0x30, 0x0d, 0x06, 0x09, 0x2a, 0x86, 0x48, 0x86, 0xf7, 0x0d, 0x01, 0x01, 0x0b,
           0x05, 0x00, 0x04, 0x82, 0x02, 0x01, 0x00]
           @ replicate 251 0xAB @ 0x03 # replicate 260 0xAB)"
  unfolding bundle_signature_Inr example_encoding_512
  by (simp add: list_update_Cons_numeral list_update_replicate DER_BIT_STRING_def)

lemma decode_512:
  "decode_SignedCert ([0x30, 0x82, 0x02, 0x16, 0x30, 0x00,
           0x30, 0x0d, 0x06, 0x09, 0x2a, 0x86, 0x48, 0x86, 0xf7, 0x0d, 0x01, 0x01, 0x0b,
           0x05, 0x00, 0x04, 0x82, 0x02, 0x01, 0x00]
           @ replicate 251 0xAB @ 0x03 # replicate 260 0xAB) = None"
  by (simp add: decode_SignedCert_def der_read_any_def der_read_tlv_long2 der_read_tlv_short
      DER_SEQUENCE_def DER_OBJECT_ID_def DER_BIT_STRING_def)

text \<open>
  A 512-byte signature: the byte 261 before the end lies inside the signature, the signature
  field keeps the OCTET STRING tag, and the reader rejects the output.
\<close>

theorem bundle_signature_roundtrip_counterexample:
  "bundle_signature example_provider (buffer_of [0x30, 0x00])
       SEC_OID_PKCS1_SHA256_WITH_RSA_ENCRYPTION (buffer_of (replicate 512 0xAB))
     = Inr ([0x30, 0x82, 0x02, 0x16, 0x30, 0x00,
           0x30, 0x0d, 0x06, 0x09, 0x2a, 0x86, 0x48, 0x86, 0xf7, 0x0d, 0x01, 0x01, 0x0b,
           0x05, 0x00, 0x04, 0x82, 0x02, 0x01, 0x00]
           @ replicate 251 0xAB @ 0x03 # replicate 260 0xAB)
   \<and> decode_SignedCert ([0x30, 0x82, 0x02, 0x16, 0x30, 0x00,
           0x30, 0x0d, 0x06, 0x09, 0x2a, 0x86, 0x48, 0x86, 0xf7, 0x0d, 0x01, 0x01, 0x0b,
           0x05, 0x00, 0x04, 0x82, 0x02, 0x01, 0x00]
           @ replicate 251 0xAB @ 0x03 # replicate 260 0xAB) = None"
  using bundle_signature_512 decode_512 by simp

text \<open>
  With 256 signature bytes the patched position is where the signature field begins.
\<close>

theorem bundle_signature_patch_position_witness:
  "bundle_signature example_provider (buffer_of [0x30, 0x00])
       SEC_OID_PKCS1_SHA256_WITH_RSA_ENCRYPTION (buffer_of (replicate 256 0xAB))
     = Inr ([0x30, 0x82, 0x01, 0x16, 0x30, 0x00,
           0x30, 0x0d, 0x06, 0x09, 0x2a, 0x86, 0x48, 0x86, 0xf7, 0x0d, 0x01, 0x01, 0x0b,
           0x05, 0x00, 0x03, 0x82, 0x01, 0x01, 0x00] @ replicate 256 0xAB)
   \<and> (\<exists>enc pre. bundle_encode example_provider (buffer_of [0x30, 0x00])
            SEC_OID_PKCS1_SHA256_WITH_RSA_ENCRYPTION (buffer_of (replicate 256 0xAB)) = Inr enc
         \<and> length enc - 261 = length pre
         \<and> enc = pre @ der_tlv DER_OCTET_STRING (0 # replicate 256 0xAB)
         \<and> [0x30, 0x82, 0x01, 0x16, 0x30, 0x00,
           0x30, 0x0d, 0x06, 0x09, 0x2a, 0x86, 0x48, 0x86, 0xf7, 0x0d, 0x01, 0x01, 0x0b,
           0x05, 0x00, 0x03, 0x82, 0x01, 0x01, 0x00] @ replicate 256 0xAB
            = pre @ der_tlv DER_BIT_STRING (0 # replicate 256 0xAB))"
proof -
  have l: "si_len (buffer_of (replicate 256 0xAB)) = 256"
    by (simp add: si_len_def buffer_of_def)
  show ?thesis
    using bundle_signature_patch_position [OF bundle_signature_256_example] l
      bundle_signature_256_example
    by (simp add: buffer_of_def) blast
qed

lemma bundle_signature_128_example:
  "bundle_signature example_provider (buffer_of ([0x04, 0x82, 0x01, 0x2c] @ replicate 300 0x11))
           SEC_OID_PKCS1_SHA256_WITH_RSA_ENCRYPTION (buffer_of (replicate 128 0xAB))
   = Inr ([0x30, 0x82, 0x01, 0xc3, 0x04, 0x82, 0x01, 0x2c]
           @ replicate 186 0x11 @ 0x03 # replicate 113 0x11
           @ [0x30, 0x0d, 0x06, 0x09, 0x2a, 0x86, 0x48, 0x86, 0xf7, 0x0d, 0x01, 0x01, 0x0b,
              0x05, 0x00, 0x04, 0x81, 0x81, 0x00] @ replicate 128 0xAB)"
proof -
  have "bundle_encode example_provider (buffer_of ([0x04, 0x82, 0x01, 0x2c] @ replicate 300 0x11))
           SEC_OID_PKCS1_SHA256_WITH_RSA_ENCRYPTION (buffer_of (replicate 128 0xAB))
   = Inr ([0x30, 0x82, 0x01, 0xc3, 0x04, 0x82, 0x01, 0x2c]
           @ replicate 300 0x11
           @ [0x30, 0x0d, 0x06, 0x09, 0x2a, 0x86, 0x48, 0x86, 0xf7, 0x0d, 0x01, 0x01, 0x0b,
              0x05, 0x00, 0x04, 0x81, 0x81, 0x00] @ replicate 128 0xAB)"
    by (subst bundle_encode_example)
     (simp_all add: der_eval
        uint_modulus_def)
  then show ?thesis
    unfolding bundle_signature_Inr
    by (simp add: list_update_Cons_numeral list_update_append list_update_replicate
          DER_BIT_STRING_def)
qed

text \<open>
  A 128-byte signature after a \<open>tbs_data\<close> of 304 bytes: the patched byte lies inside
  \<open>tbs_data\<close>, and the output still ends with the signature field as an OCTET STRING.
\<close>

theorem bundle_signature_patch_position_counterexample:
  "bundle_signature example_provider
       (buffer_of ([0x04, 0x82, 0x01, 0x2c] @ replicate 300 0x11))
       SEC_OID_PKCS1_SHA256_WITH_RSA_ENCRYPTION (buffer_of (replicate 128 0xAB))
   = Inr (([0x30, 0x82, 0x01, 0xc3, 0x04, 0x82, 0x01, 0x2c]
           @ replicate 186 0x11 @ 0x03 # replicate 113 0x11
           @ [0x30, 0x0d, 0x06, 0x09, 0x2a, 0x86, 0x48, 0x86, 0xf7, 0x0d, 0x01, 0x01, 0x0b,
              0x05, 0x00])
          @ der_tlv DER_OCTET_STRING (0 # replicate 128 0xAB))
   \<and> der_tlv DER_OCTET_STRING (0 # replicate 128 0xAB)
       \<noteq> der_tlv DER_BIT_STRING (0 # replicate 128 0xAB)"
  using bundle_signature_128_example by (simp add: der_eval)

text \<open>
  With 256 signature bytes the octet 257 bytes before the end of the output is zero.
\<close>

theorem signature_buffer_unused_bits_octet_witness:
  "signature_buffer (buffer_of (replicate 256 0xAB)) = Some (0 # replicate 256 0xAB)
   \<and> bundle_signature example_provider (buffer_of [0x30, 0x00])
       SEC_OID_PKCS1_SHA256_WITH_RSA_ENCRYPTION (buffer_of (replicate 256 0xAB))
     = Inr ([0x30, 0x82, 0x01, 0x16, 0x30, 0x00,
           0x30, 0x0d, 0x06, 0x09, 0x2a, 0x86, 0x48, 0x86, 0xf7, 0x0d, 0x01, 0x01, 0x0b,
           0x05, 0x00, 0x03, 0x82, 0x01, 0x01, 0x00] @ replicate 256 0xAB)
   \<and> si_len (buffer_of (replicate 256 0xAB)) \<noteq> 260
   \<and> ([0x30, 0x82, 0x01, 0x16, 0x30, 0x00,
           0x30, 0x0d, 0x06, 0x09, 0x2a, 0x86, 0x48, 0x86, 0xf7, 0x0d, 0x01, 0x01, 0x0b,
           0x05, 0x00, 0x03, 0x82, 0x01, 0x01, 0x00] @ replicate 256 0xAB) ! (282 - 257) = (0 :: byte)
   \<and> length (0 # replicate 256 (0xAB :: byte)) = 257"
proof -
  have l: "si_len (buffer_of (replicate 256 0xAB)) = 256"
    by (simp add: si_len_def buffer_of_def)
  show ?thesis
    using signature_buffer_unused_bits_octet [of "buffer_of (replicate 256 0xAB)"
        "0 # replicate 256 0xAB" example_provider "buffer_of [0x30, 0x00]"
        SEC_OID_PKCS1_SHA256_WITH_RSA_ENCRYPTION
        "[0x30, 0x82, 0x01, 0x16, 0x30, 0x00,
           0x30, 0x0d, 0x06, 0x09, 0x2a, 0x86, 0x48, 0x86, 0xf7, 0x0d, 0x01, 0x01, 0x0b,
           0x05, 0x00, 0x03, 0x82, 0x01, 0x01, 0x00] @ replicate 256 0xAB"]
      bundle_signature_256_example l
    by (simp add: buffer_of_def)
qed

lemma bundle_signature_260_example:
  "bundle_signature example_provider (buffer_of [0x30, 0x00])
           SEC_OID_PKCS1_SHA256_WITH_RSA_ENCRYPTION (buffer_of (replicate 260 0xAB))
   = Inr ([0x30, 0x82, 0x01, 0x1a, 0x30, 0x00,
           0x30, 0x0d, 0x06, 0x09, 0x2a, 0x86, 0x48, 0x86, 0xf7, 0x0d, 0x01, 0x01, 0x0b,
           0x05, 0x00, 0x04, 0x82, 0x01, 0x05, 0x03] @ replicate 260 0xAB)"
proof -
  have "bundle_encode example_provider (buffer_of [0x30, 0x00])
           SEC_OID_PKCS1_SHA256_WITH_RSA_ENCRYPTION (buffer_of (replicate 260 0xAB))
   = Inr ([0x30, 0x82, 0x01, 0x1a, 0x30, 0x00,
           0x30, 0x0d, 0x06, 0x09, 0x2a, 0x86, 0x48, 0x86, 0xf7, 0x0d, 0x01, 0x01, 0x0b,
           0x05, 0x00, 0x04, 0x82, 0x01, 0x05, 0x00] @ replicate 260 0xAB)"
    by (subst bundle_encode_example)
     (simp_all add: der_eval
        uint_modulus_def)
  then show ?thesis
    unfolding bundle_signature_Inr
    by (simp add: list_update_Cons_numeral DER_BIT_STRING_def)
qed

text \<open>
  A 260-byte signature: the byte 261 before the end is the unused-bits octet, and the output
  holds \<open>0x03\<close> there.
\<close>

theorem signature_buffer_unused_bits_octet_counterexample:
  "bundle_signature example_provider (buffer_of [0x30, 0x00])
       SEC_OID_PKCS1_SHA256_WITH_RSA_ENCRYPTION (buffer_of (replicate 260 0xAB))
     = Inr ([0x30, 0x82, 0x01, 0x1a, 0x30, 0x00,
           0x30, 0x0d, 0x06, 0x09, 0x2a, 0x86, 0x48, 0x86, 0xf7, 0x0d, 0x01, 0x01, 0x0b,
           0x05, 0x00, 0x04, 0x82, 0x01, 0x05] @ 0x03 # replicate 260 0xAB)
   \<and> ([0x30, 0x82, 0x01, 0x1a, 0x30, 0x00,
           0x30, 0x0d, 0x06, 0x09, 0x2a, 0x86, 0x48, 0x86, 0xf7, 0x0d, 0x01, 0x01, 0x0b,
           0x05, 0x00, 0x04, 0x82, 0x01, 0x05] @ 0x03 # replicate 260 0xAB)
        ! (286 - (si_len (buffer_of (replicate 260 0xAB)) + 1)) = (0x03 :: byte)"
  using bundle_signature_260_example by (simp add: si_len_def buffer_of_def)

section \<open>What the Extension Builder appends\<close>

lemma append_extension_Some:
  "append_extension P st oid v c = Some st' \<Longrightarrow>
     st' = st\<lparr>handle := handle st @ [\<lparr>ext_oid = oid, ext_critical = c, ext_value = v\<rparr>]\<rparr>"
  by (simp add: append_extension_def Let_def split: if_splits)

lemma add_subject_key_id_ok:
  assumes "add_subject_key_id P st k = (Returned rc, st')" and "0 \<le> rc"
  shows "\<exists>h. key_id P k = Some h \<and>
     st' = st\<lparr>handle := handle st @ [\<lparr>ext_oid = SEC_OID_X509_SUBJECT_KEY_ID,
              ext_critical = False, ext_value = der_tlv DER_OCTET_STRING h\<rparr>]\<rparr>"
  using assms
  by (auto simp: add_subject_key_id_def cmsreterr_def key_id_def generate_octet_string_def
      dest!: append_extension_Some split: option.splits if_splits)

lemma add_auth_key_id_ok:
  assumes "add_auth_key_id P st k = (Returned rc, st')" and "0 \<le> rc"
  shows "\<exists>h. key_id P k = Some h \<and>
     st' = st\<lparr>handle := handle st @ [\<lparr>ext_oid = SEC_OID_X509_AUTH_KEY_ID,
              ext_critical = False,
              ext_value = der_tlv DER_SEQUENCE (der_tlv (context_specific_tag 0) h)\<rparr>]\<rparr>"
  using assms
  by (auto simp: add_auth_key_id_def cmsreterr_def cmserr_def key_id_def
        make_context_specific_def wrap_in_seq_def
      dest!: append_extension_Some split: option.splits if_splits)

lemma add_key_usage_ok:
  assumes "add_key_usage P st = (Returned rc, st')" and "0 \<le> rc"
  shows "st' = st\<lparr>handle := handle st @ [\<lparr>ext_oid = SEC_OID_X509_KEY_USAGE,
              ext_critical = True, ext_value = key_usage_value\<rparr>]\<rparr>"
  using assms
  by (auto simp: add_key_usage_def cmsreterr_def
      dest!: append_extension_Some split: option.splits)

lemma add_basic_constraints_ok:
  assumes "add_basic_constraints P st = (Returned rc, st')" and "0 \<le> rc"
  shows "\<exists>v. CERT_EncodeBasicConstraintValue P
             \<lparr>isCA = True, pathLenConstraint = CERT_UNLIMITED_PATH_CONSTRAINT\<rparr> = Some v \<and>
     st' = st\<lparr>handle := handle st @ [\<lparr>ext_oid = SEC_OID_X509_BASIC_CONSTRAINTS,
              ext_critical = True, ext_value = v\<rparr>]\<rparr>"
  using assms
  by (auto simp: add_basic_constraints_def cmsreterr_def
      dest!: append_extension_Some split: option.splits)

lemma add_extended_key_usage_ok:
  assumes "add_extended_key_usage P st = (Returned rc, st')" and "0 \<le> rc"
  shows "st' = st\<lparr>handle := handle st @ [\<lparr>ext_oid = SEC_OID_X509_EXT_KEY_USAGE,
              ext_critical = False, ext_value = extended_key_usage_value\<rparr>]\<rparr>"
  using assms
  by (auto simp: add_extended_key_usage_def cmsreterr_def
      dest!: append_extension_Some split: option.splits)

lemma add_auth_info_ok:
  assumes "add_auth_info P st url = (Returned rc, st')" and "0 \<le> rc"
  shows "0 \<le> fst (generate_auth_info P url) \<and>
     st' = st\<lparr>handle := handle st @ [\<lparr>ext_oid = SEC_OID_X509_AUTH_INFO_ACCESS,
              ext_critical = False, ext_value = snd (generate_auth_info P url)\<rparr>]\<rparr>"
  using assms
  by (auto simp: add_auth_info_def cmsreterr_def
      dest!: append_extension_Some split: option.splits prod.splits if_splits)

lemma check_rc_ok:
  assumes "check_rc r k = (Returned rc, st')" and "0 \<le> rc"
  shows "\<exists>rc0 st. r = (Returned rc0, st) \<and> 0 \<le> rc0 \<and> k st = (Returned rc, st')"
  using assms
  by (auto simp: check_rc_def cmsreterr_def split: prod.splits control.splits if_splits)

lemma add_extensions_to_crq_handle:
  assumes "add_extensions_to_crq P log is_ca is_self_signed pubkey spubkey url = (Returned 0, st)"
  shows "\<exists>hs ha bc.
     key_id P pubkey = Some hs
   \<and> key_id P (if is_self_signed \<noteq> 0 then pubkey else spubkey) = Some ha
   \<and> (is_ca \<noteq> 0 \<longrightarrow> CERT_EncodeBasicConstraintValue P
             \<lparr>isCA = True, pathLenConstraint = CERT_UNLIMITED_PATH_CONSTRAINT\<rparr> = Some bc)
   \<and> handle st =
       [\<lparr>ext_oid = SEC_OID_X509_SUBJECT_KEY_ID, ext_critical = False,
         ext_value = der_tlv DER_OCTET_STRING hs\<rparr>]
       @ (if is_ca \<noteq> 0
          then [\<lparr>ext_oid = SEC_OID_X509_BASIC_CONSTRAINTS, ext_critical = True,
                  ext_value = bc\<rparr>,
                \<lparr>ext_oid = SEC_OID_X509_KEY_USAGE, ext_critical = True,
                  ext_value = key_usage_value\<rparr>]
          else [])
       @ [\<lparr>ext_oid = SEC_OID_X509_EXT_KEY_USAGE, ext_critical = False,
           ext_value = extended_key_usage_value\<rparr>,
          \<lparr>ext_oid = SEC_OID_X509_AUTH_KEY_ID, ext_critical = False,
           ext_value = der_tlv DER_SEQUENCE (der_tlv (context_specific_tag 0) ha)\<rparr>,
          \<lparr>ext_oid = SEC_OID_X509_AUTH_INFO_ACCESS, ext_critical = False,
           ext_value = snd (generate_auth_info P url)\<rparr>]"
proof -
  let ?st0 = "\<lparr>handle = [], messages = log\<rparr>"
  let ?issuer = "if is_self_signed \<noteq> 0 then pubkey else spubkey"
  let ?after = "\<lambda>st.
            check_rc (add_extended_key_usage P st) (\<lambda>st.
            check_rc (add_auth_key_id P st ?issuer) (\<lambda>st.
            check_rc (add_auth_info P st url) (\<lambda>st. (Returned 0, st))))"
  have tail: "\<exists>ha. key_id P ?issuer = Some ha \<and>
      handle st = handle s1 @ [\<lparr>ext_oid = SEC_OID_X509_EXT_KEY_USAGE, ext_critical = False,
           ext_value = extended_key_usage_value\<rparr>,
          \<lparr>ext_oid = SEC_OID_X509_AUTH_KEY_ID, ext_critical = False,
           ext_value = der_tlv DER_SEQUENCE (der_tlv (context_specific_tag 0) ha)\<rparr>,
          \<lparr>ext_oid = SEC_OID_X509_AUTH_INFO_ACCESS, ext_critical = False,
           ext_value = snd (generate_auth_info P url)\<rparr>]"
    if a: "?after s1 = (Returned 0, st)" for s1
  proof -
    from check_rc_ok [OF a] obtain r1 s2 where
      1: "add_extended_key_usage P s1 = (Returned r1, s2)" "0 \<le> r1"
      and b: "check_rc (add_auth_key_id P s2 ?issuer) (\<lambda>st.
            check_rc (add_auth_info P st url) (\<lambda>st. (Returned 0, st))) = (Returned 0, st)"
      by auto
    from check_rc_ok [OF b] obtain r2 s3 where
      2: "add_auth_key_id P s2 ?issuer = (Returned r2, s3)" "0 \<le> r2"
      and c: "check_rc (add_auth_info P s3 url) (\<lambda>st. (Returned 0, st)) = (Returned 0, st)"
      by auto
    from check_rc_ok [OF c] obtain r3 s4 where
      3: "add_auth_info P s3 url = (Returned r3, s4)" "0 \<le> r3" and d: "s4 = st"
      by auto
    from add_auth_key_id_ok [OF 2] obtain ha where ha: "key_id P ?issuer = Some ha"
      and s3: "s3 = s2\<lparr>handle := handle s2 @ [\<lparr>ext_oid = SEC_OID_X509_AUTH_KEY_ID,
              ext_critical = False,
              ext_value = der_tlv DER_SEQUENCE (der_tlv (context_specific_tag 0) ha)\<rparr>]\<rparr>"
      by blast
    show ?thesis
      using add_extended_key_usage_ok [OF 1] add_auth_info_ok [OF 3] ha s3 d
      by (intro exI [of _ ha]) simp
  qed
  have unfold: "add_extensions_to_crq P log is_ca is_self_signed pubkey spubkey url =
      (if \<not> CERT_StartCertificateRequestAttributes P
       then cmsreterr (-1) ?st0 ''could not generate certificate extensions''
       else check_rc (add_subject_key_id P ?st0 pubkey) (\<lambda>st.
           if is_ca \<noteq> 0
           then check_rc (add_basic_constraints P st) (\<lambda>st.
                check_rc (add_key_usage P st) ?after)
           else ?after st))"
    by (cases "is_self_signed \<noteq> 0") (simp_all add: add_extensions_to_crq_def Let_def)
  have start: "CERT_StartCertificateRequestAttributes P"
  proof (rule ccontr)
    assume "\<not> CERT_StartCertificateRequestAttributes P"
    then show False using assms unfolding unfold by (simp add: cmsreterr_def)
  qed
  have run: "check_rc (add_subject_key_id P ?st0 pubkey) (\<lambda>st.
           if is_ca \<noteq> 0
           then check_rc (add_basic_constraints P st) (\<lambda>st.
                check_rc (add_key_usage P st) ?after)
           else ?after st) = (Returned 0, st)"
    using assms start unfolding unfold by simp
  from check_rc_ok [OF run] obtain r0 s1 where
    0: "add_subject_key_id P ?st0 pubkey = (Returned r0, s1)" "0 \<le> r0"
    and rest: "(if is_ca \<noteq> 0
           then check_rc (add_basic_constraints P s1) (\<lambda>st.
                check_rc (add_key_usage P st) ?after)
           else ?after s1) = (Returned 0, st)"
    by auto
  from add_subject_key_id_ok [OF 0] obtain hs where hs: "key_id P pubkey = Some hs"
    and s1: "handle s1 = [\<lparr>ext_oid = SEC_OID_X509_SUBJECT_KEY_ID,
              ext_critical = False, ext_value = der_tlv DER_OCTET_STRING hs\<rparr>]"
    by auto
  show ?thesis
  proof (cases "is_ca \<noteq> 0")
    case False
    with rest have "?after s1 = (Returned 0, st)" by simp
    from tail [OF this] show ?thesis using False hs s1 by auto
  next
    case True
    with rest have e: "check_rc (add_basic_constraints P s1) (\<lambda>st.
                check_rc (add_key_usage P st) ?after) = (Returned 0, st)" by simp
    from check_rc_ok [OF e] obtain r1 s2 where
      1: "add_basic_constraints P s1 = (Returned r1, s2)" "0 \<le> r1"
      and f: "check_rc (add_key_usage P s2) ?after = (Returned 0, st)"
      by auto
    from check_rc_ok [OF f] obtain r2 s3 where
      2: "add_key_usage P s2 = (Returned r2, s3)" "0 \<le> r2"
      and g: "?after s3 = (Returned 0, st)"
      by auto
    from add_basic_constraints_ok [OF 1] obtain bc where
      bc: "CERT_EncodeBasicConstraintValue P
             \<lparr>isCA = True, pathLenConstraint = CERT_UNLIMITED_PATH_CONSTRAINT\<rparr> = Some bc"
      and s2: "s2 = s1\<lparr>handle := handle s1 @ [\<lparr>ext_oid = SEC_OID_X509_BASIC_CONSTRAINTS,
              ext_critical = True, ext_value = bc\<rparr>]\<rparr>"
      by blast
    from tail [OF g] obtain ha where ha: "key_id P ?issuer = Some ha"
      and st: "handle st = handle s3 @ [\<lparr>ext_oid = SEC_OID_X509_EXT_KEY_USAGE, ext_critical = False,
           ext_value = extended_key_usage_value\<rparr>,
          \<lparr>ext_oid = SEC_OID_X509_AUTH_KEY_ID, ext_critical = False,
           ext_value = der_tlv DER_SEQUENCE (der_tlv (context_specific_tag 0) ha)\<rparr>,
          \<lparr>ext_oid = SEC_OID_X509_AUTH_INFO_ACCESS, ext_critical = False,
           ext_value = snd (generate_auth_info P url)\<rparr>]"
      by blast
    show ?thesis
      using True hs ha bc s1 s2 st add_key_usage_ok [OF 2]
      by (intro exI [of _ hs] exI [of _ ha] exI [of _ bc]) simp
  qed
qed


text \<open>
  Claim C8.  The key-usage value is the literal four bytes \<open>03 02 01 86\<close> (a BIT
  STRING header, the padding-length octet 1 and the content byte \<open>0x86\<close>), whatever the
  profile; \<^verbatim>\<open>add_key_usage\<close> appends it marked critical, and a successful
  \<^verbatim>\<open>add_extensions_to_crq\<close> holds exactly that key-usage extension when \<^verbatim>\<open>is_ca\<close> is
  set and none otherwise.
\<close>

theorem key_usage_fixed_pattern:
  "key_usage_value = [0x03, 0x02, 0x01, 0x86]
   \<and> (add_key_usage P st0 = (Returned 0, st1) \<longrightarrow>
        handle st1 = handle st0 @ [\<lparr>ext_oid = SEC_OID_X509_KEY_USAGE, ext_critical = True,
                                   ext_value = [0x03, 0x02, 0x01, 0x86]\<rparr>])
   \<and> (add_extensions_to_crq P log is_ca is_self_signed pubkey spubkey url = (Returned 0, st)
        \<longrightarrow> filter (\<lambda>e. ext_oid e = SEC_OID_X509_KEY_USAGE) (handle st)
            = (if is_ca \<noteq> 0
               then [\<lparr>ext_oid = SEC_OID_X509_KEY_USAGE, ext_critical = True,
                       ext_value = [0x03, 0x02, 0x01, 0x86]\<rparr>]
               else []))"
proof (intro conjI impI)
  show v: "key_usage_value = [0x03, 0x02, 0x01, 0x86]"
    by (simp add: key_usage_value_def)
  show "handle st1 = handle st0 @ [\<lparr>ext_oid = SEC_OID_X509_KEY_USAGE, ext_critical = True,
                                   ext_value = [0x03, 0x02, 0x01, 0x86]\<rparr>]"
    if "add_key_usage P st0 = (Returned 0, st1)"
    using add_key_usage_ok [OF that] v by simp
  show "filter (\<lambda>e. ext_oid e = SEC_OID_X509_KEY_USAGE) (handle st)
            = (if is_ca \<noteq> 0
               then [\<lparr>ext_oid = SEC_OID_X509_KEY_USAGE, ext_critical = True,
                       ext_value = [0x03, 0x02, 0x01, 0x86]\<rparr>]
               else [])"
    if "add_extensions_to_crq P log is_ca is_self_signed pubkey spubkey url = (Returned 0, st)"
    using add_extensions_to_crq_handle [OF that] v by auto
qed





section \<open>The Extension Builder on concrete inputs\<close>

lemmas ext_eval = add_extensions_to_crq_def check_rc_def add_subject_key_id_def
  add_auth_key_id_def add_key_usage_def add_basic_constraints_def
  add_extended_key_usage_def add_auth_info_def append_extension_def
  generate_octet_string_def make_context_specific_def wrap_in_seq_def
  cmsreterr_def cmserr_def

lemma example_extensions:
  "add_extensions_to_crq example_provider log is_ca is_self_signed pubkey spubkey url =
     (Returned 0,
      \<lparr>handle =
         [\<lparr>ext_oid = SEC_OID_X509_SUBJECT_KEY_ID, ext_critical = False,
           ext_value = der_tlv DER_OCTET_STRING (take 20 pubkey)\<rparr>]
         @ (if is_ca \<noteq> 0
            then [\<lparr>ext_oid = SEC_OID_X509_BASIC_CONSTRAINTS, ext_critical = True,
                    ext_value = [0x30, 0x03, 0x01, 0x01, 0xff]\<rparr>,
                  \<lparr>ext_oid = SEC_OID_X509_KEY_USAGE, ext_critical = True,
                    ext_value = key_usage_value\<rparr>]
            else [])
         @ [\<lparr>ext_oid = SEC_OID_X509_EXT_KEY_USAGE, ext_critical = False,
             ext_value = extended_key_usage_value\<rparr>,
            \<lparr>ext_oid = SEC_OID_X509_AUTH_KEY_ID, ext_critical = False,
             ext_value = der_tlv DER_SEQUENCE (der_tlv (context_specific_tag 0)
                (take 20 (if is_self_signed \<noteq> 0 then pubkey else spubkey)))\<rparr>,
            \<lparr>ext_oid = SEC_OID_X509_AUTH_INFO_ACCESS, ext_critical = False,
             ext_value = []\<rparr>],
       messages = log\<rparr>)"
  by (simp add: ext_eval example_provider_def Let_def)


text \<open>
  The key-usage extension of a CA profile, and its absence from a profile that is not a CA.
\<close>

theorem key_usage_fixed_pattern_witness:
  "add_key_usage example_provider \<lparr>handle = [], messages = []\<rparr>
     = (Returned 0, \<lparr>handle = [\<lparr>ext_oid = SEC_OID_X509_KEY_USAGE, ext_critical = True,
                                  ext_value = [0x03, 0x02, 0x01, 0x86]\<rparr>], messages = []\<rparr>)
   \<and> filter (\<lambda>e. ext_oid e = SEC_OID_X509_KEY_USAGE)
        (handle (snd (add_extensions_to_crq example_provider [] 1 1 [0x01, 0x02, 0x03] [] None)))
      = [\<lparr>ext_oid = SEC_OID_X509_KEY_USAGE, ext_critical = True,
          ext_value = [0x03, 0x02, 0x01, 0x86]\<rparr>]
   \<and> filter (\<lambda>e. ext_oid e = SEC_OID_X509_KEY_USAGE)
        (handle (snd (add_extensions_to_crq example_provider [] 0 0 [0x01, 0x02, 0x03] [0x04]
           None)))
      = []"
proof -
  have a: "add_key_usage example_provider \<lparr>handle = [], messages = []\<rparr>
     = (Returned 0, \<lparr>handle = [\<lparr>ext_oid = SEC_OID_X509_KEY_USAGE, ext_critical = True,
                                  ext_value = key_usage_value\<rparr>], messages = []\<rparr>)"
    by (simp add: ext_eval example_provider_def)
  have e1: "add_extensions_to_crq example_provider [] 1 1 [0x01, 0x02, 0x03] [] None =
     (Returned 0, snd (add_extensions_to_crq example_provider [] 1 1 [0x01, 0x02, 0x03] [] None))"
    by (simp add: example_extensions)
  have e0: "add_extensions_to_crq example_provider [] 0 0 [0x01, 0x02, 0x03] [0x04] None =
     (Returned 0, snd (add_extensions_to_crq example_provider [] 0 0 [0x01, 0x02, 0x03] [0x04]
        None))"
    by (simp add: example_extensions)
  show ?thesis
    using key_usage_fixed_pattern [of example_provider "\<lparr>handle = [], messages = []\<rparr>"
        "\<lparr>handle = [\<lparr>ext_oid = SEC_OID_X509_KEY_USAGE, ext_critical = True,
                                  ext_value = key_usage_value\<rparr>], messages = []\<rparr>"
        "[]" 1 1 "[0x01, 0x02, 0x03]" "[]" None
        "snd (add_extensions_to_crq example_provider [] 1 1 [0x01, 0x02, 0x03] [] None)"]
      key_usage_fixed_pattern [of example_provider "\<lparr>handle = [], messages = []\<rparr>"
        "\<lparr>handle = [\<lparr>ext_oid = SEC_OID_X509_KEY_USAGE, ext_critical = True,
                                  ext_value = key_usage_value\<rparr>], messages = []\<rparr>"
        "[]" 0 0 "[0x01, 0x02, 0x03]" "[0x04]" None
        "snd (add_extensions_to_crq example_provider [] 0 0 [0x01, 0x02, 0x03] [0x04] None)"]
      a e1 e0
    by simp
qed


lemma sum_powers_less: "(\<Sum>i\<le>n. (256::nat) ^ i) < 256 * 256 ^ n"
  by (induction n) simp_all

lemma card_identifiers: "card {h :: bytes. length h \<le> 20} < 256 ^ 21"
proof -
  have "card {h :: bytes. length h \<le> 20} = (\<Sum>i\<le>20. 256 ^ i)"
    using card_lists_length_le [of "UNIV :: byte set" 20] by (simp only: card_word) simp
  also have "\<dots> < 256 * 256 ^ 20" by (rule sum_powers_less)
  also have "\<dots> = (256::nat) ^ 21" by (simp only: power_Suc [symmetric]) simp
  finally show ?thesis .
qed

text \<open>
  Such sets exist: the keys of 21 bytes, with the provider of the examples.
\<close>

lemma more_keys_than_identifiers:
  "finite {k :: bytes. length k = 21}
   \<and> card {h :: bytes. length h \<le> 20} < card {k :: bytes. length k = 21}
   \<and> (\<forall>k\<in>{k. length k = 21}.
         fst (add_auth_key_id example_provider \<lparr>handle = [], messages = []\<rparr> k) = Returned 0)
   \<and> (\<forall>k\<in>{k. length k = 21}. \<forall>h. key_id example_provider k = Some h \<longrightarrow> length h \<le> 20)"
proof (intro conjI)
  show "finite {k :: bytes. length k = 21}"
    using finite_lists_length_eq [of "UNIV :: byte set" 21] by simp
  have "card {k :: bytes. length k = 21} = 256 ^ 21"
    using card_lists_length_eq [of "UNIV :: byte set" 21] by (simp only: card_word) simp
  then show "card {h :: bytes. length h \<le> 20} < card {k :: bytes. length k = 21}"
    using card_identifiers by simp
  show "\<forall>k\<in>{k. length k = 21}.
         fst (add_auth_key_id example_provider \<lparr>handle = [], messages = []\<rparr> k) = Returned 0"
    by (simp add: add_auth_key_id_def make_context_specific_def wrap_in_seq_def
          append_extension_def example_provider_def)
  show "\<forall>k\<in>{k. length k = 21}. \<forall>h. key_id example_provider k = Some h \<longrightarrow> length h \<le> 20"
    by (auto simp: key_id_def example_provider_def)
qed

text \<open>
  Claim C9, evaluated where it fails.  When \<^verbatim>\<open>make_context_specific\<close> or
  \<^verbatim>\<open>wrap_in_seq\<close> fails while the authority-key-id extension is built, the message
  handed to the log names the subject key id extension; the caller then adds its own
  message, which names no extension.
\<close>

theorem auth_key_id_failure_message:
  "add_auth_key_id (example_provider\<lparr>helper_fails := (\<lambda>name. name = ''make_context_specific'')\<rparr>)
       \<lparr>handle = [], messages = []\<rparr> [0x01, 0x02, 0x03]
     = (Returned (-1),
        \<lparr>handle = [], messages = [''could not encode subject key id extension'']\<rparr>)
   \<and> add_auth_key_id (example_provider\<lparr>helper_fails := (\<lambda>name. name = ''wrap_in_seq'')\<rparr>)
       \<lparr>handle = [], messages = []\<rparr> [0x01, 0x02, 0x03]
     = (Returned (-1),
        \<lparr>handle = [], messages = [''could not encode subject key id extension'']\<rparr>)
   \<and> snd (add_extensions_to_crq
            (example_provider\<lparr>helper_fails := (\<lambda>name. name = ''make_context_specific'')\<rparr>)
            [] 0 1 [0x01, 0x02, 0x03] [] None)
     = \<lparr>handle = [\<lparr>ext_oid = SEC_OID_X509_SUBJECT_KEY_ID, ext_critical = False,
                    ext_value = [0x04, 0x03, 0x01, 0x02, 0x03]\<rparr>,
                  \<lparr>ext_oid = SEC_OID_X509_EXT_KEY_USAGE, ext_critical = False,
                    ext_value = extended_key_usage_value\<rparr>],
        messages = [''could not encode subject key id extension'',
                    ''could not generate certificate extensions'']\<rparr>"
  by (simp add: ext_eval example_provider_def Let_def der_eval)

section \<open>What the Orchestrator does\<close>

lemma main_sign_and_write_trace:
  "\<exists>rest. fst (main_sign_and_write opts W outfd p12fd certder tr) = tr @ rest"
  by (simp add: main_sign_and_write_def Let_def split: sum.splits bundle_error.splits)

lemma main_certificate_trace:
  "\<exists>rest. fst (main_certificate opts W ss outfd p12fd pubkey tr) = tr @ rest"
proof -
  have "\<exists>rest. fst (main_sign_and_write opts W outfd p12fd certder (tr @ [GenerateCertificate]))
           = tr @ rest" for certder
    using main_sign_and_write_trace [of opts W outfd p12fd certder "tr @ [GenerateCertificate]"]
    by auto
  then show ?thesis
    by (simp add: main_certificate_def split: option.splits prod.splits)
qed

lemma main_sign_and_write_outcome:
  "snd (main_sign_and_write opts (W\<lparr>open_poutfile := fd\<rparr>) outfd p12fd' certder tr')
     = snd (main_sign_and_write opts W outfd p12fd certder tr)"
proof -
  let ?sig = "case SEC_SignData W certder of
               Some sig \<Rightarrow> \<lparr>si_type = siBuffer, si_data = sig\<rparr>
             | None \<Rightarrow> uninitialised_signature W"
  have s: "(case SEC_SignData (W\<lparr>open_poutfile := fd\<rparr>) certder of
               Some sig \<Rightarrow> \<lparr>si_type = siBuffer, si_data = sig\<rparr>
             | None \<Rightarrow> uninitialised_signature (W\<lparr>open_poutfile := fd\<rparr>)) = ?sig"
    by (simp split: option.splits)
  show ?thesis
    unfolding main_sign_and_write_def Let_def s
    by (cases "bundle_signature (nss W) \<lparr>si_type = siBuffer, si_data = certder\<rparr>
                SEC_OID_PKCS1_SHA256_WITH_RSA_ENCRYPTION ?sig")
       (simp_all split: bundle_error.splits)
qed

lemma main_certificate_outcome:
  "snd (main_certificate opts (W\<lparr>open_poutfile := fd\<rparr>) ss outfd p12fd' pubkey tr')
     = snd (main_certificate opts W ss outfd p12fd pubkey tr)"
  using main_sign_and_write_outcome [where opts = opts and W = W and fd = fd
      and outfd = outfd and p12fd' = p12fd' and tr' = "tr' @ [GenerateCertificate]"
      and p12fd = p12fd and tr = "tr @ [GenerateCertificate]"]
  by (auto simp: main_certificate_def split: option.splits prod.splits)

text \<open>
  Claim C7.  With \<^verbatim>\<open>--self-sign\<close> and a signer both given, the run ends with the
  input-validation error before anything else is done (the trace of effects is empty).
  With neither given, the settled \<^verbatim>\<open>is_self_signed\<close> is 1 when \<^verbatim>\<open>is_ca\<close> is set (the
  validation then only asks for the common name), and when \<^verbatim>\<open>is_ca\<close> is not set the
  run is rejected before anything else is done.
\<close>

theorem conflicting_flags_rejected:
  "(opt_is_self_signed opts = 1 \<and> opt_signer opts \<noteq> None \<longrightarrow>
      main opts W =
        ([], Exit 1 ''efikeygen: --self-sign and --signer cannot be used at the same time.''))
   \<and> (opt_is_self_signed opts = -1 \<and> opt_signer opts = None \<and> opt_is_ca opts \<noteq> 0 \<longrightarrow>
      main_validate opts =
        (if opt_cn opts = None then Inl ''efikeygen: --common-name must be specified''
         else Inr 1))
   \<and> (opt_is_self_signed opts = -1 \<and> opt_signer opts = None \<and> opt_is_ca opts = 0 \<longrightarrow>
      main opts W =
        ([], Exit 1 (if opt_cn opts = None then ''efikeygen: --common-name must be specified''
                     else ''efikeygen: signing certificate is required'')))"
  by (simp add: main_def main_validate_def)

text \<open>
  Claim C10.  Once the options are valid: a negative descriptor for the certificate
  output file ends the run; otherwise the next effect is the \<^verbatim>\<open>open\<close> of the
  private-key output path, whatever it is (\<open>None\<close> is the null pointer), and the
  outcome of the run does not depend on the descriptor that call returns.
\<close>

theorem private_key_file_open_unchecked:
  assumes "main_validate opts = Inr ss"
  shows "(open_outfile W < 0 \<longrightarrow>
            main opts W = ([Open (Some (opt_outfile opts))],
                           Exit 1 (''efikeygen: could not open '' @ opt_outfile opts)))
       \<and> (0 \<le> open_outfile W \<longrightarrow>
            take 2 (fst (main opts W))
              = [Open (Some (opt_outfile opts)), Open (opt_poutfile opts)])
       \<and> snd (main opts (W\<lparr>open_poutfile := fd\<rparr>)) = snd (main opts W)"
proof (intro conjI impI)
  show "main opts W = ([Open (Some (opt_outfile opts))],
                           Exit 1 (''efikeygen: could not open '' @ opt_outfile opts))"
    if "open_outfile W < 0"
    using that assms by (simp add: main_def main_files_def)
  show "take 2 (fst (main opts W))
              = [Open (Some (opt_outfile opts)), Open (opt_poutfile opts)]"
    if "0 \<le> open_outfile W"
  proof -
    let ?tr1 = "[Open (Some (opt_outfile opts)), Open (opt_poutfile opts)]"
    have "\<exists>rest. fst (main_files opts W ss) = ?tr1 @ rest"
    proof (cases "opt_pubfile opts")
      case None
      then show ?thesis
        using that main_certificate_trace [of opts W ss "open_outfile W" "open_poutfile W" None ?tr1]
        by (simp add: main_files_def)
    next
      case (Some path)
      show ?thesis
      proof (cases "read_file W (open_pubfile W)")
        case None
        then show ?thesis using that Some by (simp add: main_files_def)
      next
        case (Some data)
        from main_certificate_trace [of opts W ss "open_outfile W" "open_poutfile W" "Some data"
            "?tr1 @ [Open (opt_pubfile opts), ReadFile (open_pubfile W), Close (open_pubfile W)]"]
        show ?thesis using that Some \<open>opt_pubfile opts = Some path\<close>
          by (auto simp: main_files_def Let_def)
      qed
    qed
    then show ?thesis using assms by (auto simp: main_def)
  qed
  show "snd (main opts (W\<lparr>open_poutfile := fd\<rparr>)) = snd (main opts W)"
    using assms main_certificate_outcome [where opts = opts and W = W and fd = fd
        and ss = ss and outfd = "open_outfile W" and p12fd' = fd
        and p12fd = "open_poutfile W"]
    by (simp add: main_def main_files_def Let_def split: option.splits)
qed

lemmas main_eval = main_def main_validate_def main_files_def main_certificate_def
  main_sign_and_write_def Let_def

lemma main_example:
  "main example_options example_world =
     ([Open (Some ''signed.cer''), Open None, GenerateCertificate, SignData [0x30, 0x00],
       BundleSignature,
       Write 3 ([0x30, 0x82, 0x01, 0x16, 0x30, 0x00,
           0x30, 0x0d, 0x06, 0x09, 0x2a, 0x86, 0x48, 0x86, 0xf7, 0x0d, 0x01, 0x01, 0x0b,
           0x05, 0x00, 0x03, 0x82, 0x01, 0x01, 0x00] @ replicate 256 0xAB),
       Close 3, Close (-1)], Return 0)"
  by (simp add: main_eval example_options_def example_world_def ULLONG_MAX_def
        bundle_signature_256_example [unfolded buffer_of_def])
     (simp add: example_provider_def)

text \<open>
  The three cases on concrete options.
\<close>

theorem conflicting_flags_rejected_witness:
  "main (example_options\<lparr>opt_is_self_signed := 1, opt_signer := Some ''Signer''\<rparr>) example_world
     = ([], Exit 1 ''efikeygen: --self-sign and --signer cannot be used at the same time.'')
   \<and> main_validate example_options = Inr 1
   \<and> main (example_options\<lparr>opt_is_ca := 0\<rparr>) example_world
     = ([], Exit 1 ''efikeygen: signing certificate is required'')"
  using conflicting_flags_rejected
          [of "example_options\<lparr>opt_is_self_signed := 1, opt_signer := Some ''Signer''\<rparr>"
              example_world]
        conflicting_flags_rejected [of example_options example_world]
        conflicting_flags_rejected [of "example_options\<lparr>opt_is_ca := 0\<rparr>" example_world]
  by (simp add: example_options_def)

text \<open>
  No private-key path and a failing \<^verbatim>\<open>open\<close>: the run still returns 0, as it does when the
  descriptor is good.
\<close>

theorem private_key_file_open_unchecked_witness:
  "main_validate example_options = Inr 1
   \<and> opt_poutfile example_options = None
   \<and> open_poutfile example_world = -1
   \<and> take 2 (fst (main example_options example_world)) = [Open (Some ''signed.cer''), Open None]
   \<and> snd (main example_options (example_world\<lparr>open_poutfile := 4\<rparr>)) = Return 0
   \<and> snd (main example_options example_world) = Return 0"
proof -
  have v: "main_validate example_options = Inr 1"
    by (simp add: main_validate_def example_options_def)
  show ?thesis
    using private_key_file_open_unchecked [OF v, of example_world 4] v main_example
    by (simp add: example_options_def example_world_def)
qed

text \<open>
  Claim C4, evaluated where it fails.  When \<^verbatim>\<open>SEC_SignData\<close> fails, the run bundles
  whatever the unassigned \<^verbatim>\<open>signature\<close> holds, writes the result and returns 0; when
  the algorithm identifier cannot be resolved, \<^verbatim>\<open>bundle_signature\<close> returns \<open>-1\<close>, the
  run writes the empty \<^verbatim>\<open>sigder\<close> and returns 0.
\<close>

theorem main_ignores_signing_failure:
  "main example_options (example_world\<lparr>SEC_SignData := (\<lambda>tbs. None)\<rparr>) =
     ([Open (Some ''signed.cer''), Open None, GenerateCertificate, SignData [0x30, 0x00],
       BundleSignature,
       Write 3 ([0x30, 0x82, 0x01, 0x16, 0x30, 0x00,
           0x30, 0x0d, 0x06, 0x09, 0x2a, 0x86, 0x48, 0x86, 0xf7, 0x0d, 0x01, 0x01, 0x0b,
           0x05, 0x00, 0x03, 0x82, 0x01, 0x01, 0x00] @ replicate 256 0x00),
       Close 3, Close (-1)], Return 0)
   \<and> main example_options
        (example_world\<lparr>nss := example_provider
           \<lparr>generate_algorithm_id := (\<lambda>tag. None)\<rparr>\<rparr>) =
     ([Open (Some ''signed.cer''), Open None, GenerateCertificate, SignData [0x30, 0x00],
       BundleSignature, Write 3 [], Close 3, Close (-1)], Return 0)"
proof
  show "main example_options (example_world\<lparr>SEC_SignData := (\<lambda>tbs. None)\<rparr>) =
     ([Open (Some ''signed.cer''), Open None, GenerateCertificate, SignData [0x30, 0x00],
       BundleSignature,
       Write 3 ([0x30, 0x82, 0x01, 0x16, 0x30, 0x00,
           0x30, 0x0d, 0x06, 0x09, 0x2a, 0x86, 0x48, 0x86, 0xf7, 0x0d, 0x01, 0x01, 0x0b,
           0x05, 0x00, 0x03, 0x82, 0x01, 0x01, 0x00] @ replicate 256 0x00),
       Close 3, Close (-1)], Return 0)"
    by (simp add: main_eval example_options_def example_world_def ULLONG_MAX_def
        bundle_signature_256_example [unfolded buffer_of_def])
       (simp add: example_provider_def)
next
  let ?P = "example_provider\<lparr>generate_algorithm_id := (\<lambda>tag. None)\<rparr>"
  have g: "generate_algorithm_id ?P SEC_OID_PKCS1_SHA256_WITH_RSA_ENCRYPTION = None"
    by simp
  have b: "bundle_signature ?P \<lparr>si_type = siBuffer, si_data = [0x30, 0x00]\<rparr>
             SEC_OID_PKCS1_SHA256_WITH_RSA_ENCRYPTION
             \<lparr>si_type = siBuffer, si_data = replicate 256 0xAB\<rparr> = Inl Returned_minus_1"
    by (rule bundle_signature_algid_failure [OF _ g]) (simp add: si_len_def uint_modulus_def)
  have f: "SECOID_FindOIDByTag example_provider SEC_OID_PKCS1_SHA256_WITH_RSA_ENCRYPTION
             = Some sha256_rsa_oid"
    by (simp add: example_provider_def)
  show "main example_options (example_world\<lparr>nss := ?P\<rparr>) =
     ([Open (Some ''signed.cer''), Open None, GenerateCertificate, SignData [0x30, 0x00],
       BundleSignature, Write 3 [], Close 3, Close (-1)], Return 0)"
    by (simp add: main_eval example_options_def example_world_def ULLONG_MAX_def b f)
qed

end
